theory Spec2Isabelle
  imports Complex_Main "HOL-Library.Word"
begin

section \<open>JavaScript values and JSON\<close>

text \<open>
  The values the program handles are JavaScript values. Numbers are IEEE doubles: the
  finite ones other than negative zero are represented by the rational they denote,
  the others by a constructor each. Strings are lists of characters. An object is the
  list of its own enumerable properties in property order; an array is the list of its
  elements.
\<close>

datatype jsnum = Finite rat | NegZero | NaN | PosInfinity | NegInfinity

datatype jsval =
    Undefined
  | Null
  | Bool bool
  | Num jsnum
  | Str string
  | Arr "jsval list"
  | Obj "(string \<times> jsval) list"

text \<open>
  Exceptions are \<open>Error\<close> objects, of which the program reads the message only: the
  engine, the file system and the run time throw nothing else. The wording of the
  messages of the run time is that of V8.
\<close>

datatype exn = Error string

fun message :: "exn \<Rightarrow> string" where
  "message (Error m) = m"

text \<open>Truthiness, as \<open>if (x)\<close> and \<open>x || y\<close> test it.\<close>

fun truthy :: "jsval \<Rightarrow> bool" where
  "truthy Undefined = False"
| "truthy Null = False"
| "truthy (Bool b) = b"
| "truthy (Num n) = (n \<noteq> Finite 0 \<and> n \<noteq> NegZero \<and> n \<noteq> NaN)"
| "truthy (Str s) = (s \<noteq> [])"
| "truthy (Arr xs) = True"
| "truthy (Obj kvs) = True"

definition js_or :: "jsval \<Rightarrow> jsval \<Rightarrow> jsval" where
  "js_or a b = (if truthy a then a else b)"

text \<open>
  \<open>JSON.stringify\<close> yields a text, or \<open>undefined\<close> (here \<open>None\<close>) for the value
  \<open>undefined\<close>. The text is represented by the JSON document it denotes: a property
  whose value is \<open>undefined\<close> is left out, an \<open>undefined\<close> array element and a number
  that is not finite become \<open>null\<close>, and negative zero is written \<open>0\<close>.
\<close>

fun JSON_stringify :: "jsval \<Rightarrow> jsval option"
  and stringify_elements :: "jsval list \<Rightarrow> jsval list"
  and stringify_members :: "(string \<times> jsval) list \<Rightarrow> (string \<times> jsval) list" where
  "JSON_stringify Undefined = None"
| "JSON_stringify Null = Some Null"
| "JSON_stringify (Bool b) = Some (Bool b)"
| "JSON_stringify (Num n) =
     Some (case n of Finite q \<Rightarrow> Num (Finite q) | NegZero \<Rightarrow> Num (Finite 0) | _ \<Rightarrow> Null)"
| "JSON_stringify (Str s) = Some (Str s)"
| "JSON_stringify (Arr xs) = Some (Arr (stringify_elements xs))"
| "JSON_stringify (Obj kvs) = Some (Obj (stringify_members kvs))"
| "stringify_elements [] = []"
| "stringify_elements (x # xs) =
     (case JSON_stringify x of None \<Rightarrow> Null | Some v \<Rightarrow> v) # stringify_elements xs"
| "stringify_members [] = []"
| "stringify_members ((k, v) # kvs) =
     (case JSON_stringify v of
        None \<Rightarrow> stringify_members kvs
      | Some w \<Rightarrow> (k, w) # stringify_members kvs)"

text \<open>
  A text that is read (a request body, the credential file) is represented by what
  \<open>JSON.parse\<close> makes of it: the document it denotes, or nothing when it is not JSON.
\<close>

datatype json_text = NotJSON | JSON jsval

fun JSON_parse :: "json_text \<Rightarrow> exn + jsval" where
  "JSON_parse NotJSON = Inl (Error ''Unexpected token'')"
| "JSON_parse (JSON d) = Inr d"

text \<open>
  Reading a property, as \<open>x.k\<close> and the destructuring \<open>const {k} = x\<close> do, for the
  property names this program reads (none of them is a property of a built-in
  prototype): \<open>null\<close> and \<open>undefined\<close> have no properties and the read throws; an
  object yields its own property or \<open>undefined\<close>; every other value yields \<open>undefined\<close>.
\<close>

fun get_field :: "jsval \<Rightarrow> string \<Rightarrow> exn + jsval" where
  "get_field Undefined k =
     Inl (Error (''Cannot read properties of undefined (reading '' @ [CHR 0x27] @ k @ [CHR 0x27]
                 @ '')''))"
| "get_field Null k =
     Inl (Error (''Cannot read properties of null (reading '' @ [CHR 0x27] @ k @ [CHR 0x27]
                 @ '')''))"
| "get_field (Obj kvs) k = Inr (case map_of kvs k of None \<Rightarrow> Undefined | Some v \<Rightarrow> v)"
| "get_field v k = Inr Undefined"

section \<open>auth.ts: the credential store\<close>

text \<open>
  The file system as \<open>auth.ts\<close> sees it. At the path of the credential file there is
  nothing, something that is not a regular file (reading, writing and unlinking it
  throw), a regular file that the process cannot read, or a regular file with its
  text. The flags say whether the configuration directory exists (it does when the
  file does), whether a missing directory can be created, whether entries can be
  created in and removed from the directory, and whether an existing file can be
  written.
\<close>

datatype file_entry = Missing | NotAFile | Unreadable | Content json_text

record filesystem =
  auth_file :: file_entry
  config_dir :: bool
  dir_creatable :: bool
  dir_writable :: bool
  file_writable :: bool

definition existsSync :: "filesystem \<Rightarrow> bool" where
  "existsSync fs = (auth_file fs \<noteq> Missing)"

definition readFileSync :: "filesystem \<Rightarrow> exn + json_text" where
  "readFileSync fs =
     (case auth_file fs of
        Content t \<Rightarrow> Inr t
      | Missing \<Rightarrow> Inl (Error ''ENOENT'')
      | NotAFile \<Rightarrow> Inl (Error ''EISDIR'')
      | Unreadable \<Rightarrow> Inl (Error ''EACCES''))"

text \<open>
  \<open>mkdirSync(CONFIG_DIR, {recursive: true})\<close>: nothing to do for a directory that
  exists; a missing one is created, and is then writable by the process.
\<close>

definition mkdirSync :: "filesystem \<Rightarrow> exn + filesystem" where
  "mkdirSync fs =
     (if config_dir fs then Inr fs
      else if dir_creatable fs then Inr (fs\<lparr>config_dir := True, dir_writable := True\<rparr>)
      else Inl (Error ''EACCES''))"

text \<open>
  \<open>writeFileSync(AUTH_FILE, text, {mode: 0o600})\<close>: an existing file is rewritten when
  it can be written, and keeps its permissions; a missing one is created in a
  directory that allows it, readable and writable by the process.
\<close>

definition writeFileSync :: "json_text \<Rightarrow> filesystem \<Rightarrow> exn + filesystem" where
  "writeFileSync t fs =
     (case auth_file fs of
        Missing \<Rightarrow>
          if \<not> config_dir fs then Inl (Error ''ENOENT'')
          else if \<not> dir_writable fs then Inl (Error ''EACCES'')
          else Inr (fs\<lparr>auth_file := Content t, file_writable := True\<rparr>)
      | NotAFile \<Rightarrow> Inl (Error ''EISDIR'')
      | Unreadable \<Rightarrow> if file_writable fs then Inr fs else Inl (Error ''EACCES'')
      | Content old \<Rightarrow>
          if file_writable fs then Inr (fs\<lparr>auth_file := Content t\<rparr>) else Inl (Error ''EACCES''))"

text \<open>\<open>unlinkSync(AUTH_FILE)\<close> removes an entry of the directory, which must allow it.\<close>

definition unlinkSync :: "filesystem \<Rightarrow> exn + filesystem" where
  "unlinkSync fs =
     (case auth_file fs of
        Missing \<Rightarrow> Inl (Error ''ENOENT'')
      | NotAFile \<Rightarrow> Inl (Error ''EPERM'')
      | _ \<Rightarrow>
          if dir_writable fs then Inr (fs\<lparr>auth_file := Missing\<rparr>) else Inl (Error ''EACCES''))"

text \<open>The body of the \<open>try\<close> block of \<open>readStoredToken\<close>, then the function with its \<open>catch\<close>.\<close>

definition readStoredToken_try :: "filesystem \<Rightarrow> exn + jsval" where
  "readStoredToken_try fs =
     (if \<not> existsSync fs then Inr Null
      else case readFileSync fs of
        Inl e \<Rightarrow> Inl e
      | Inr t \<Rightarrow>
          (case JSON_parse t of
             Inl e \<Rightarrow> Inl e
           | Inr data \<Rightarrow>
               (case get_field data ''token'' of
                  Inl e \<Rightarrow> Inl e
                | Inr tok \<Rightarrow> Inr (js_or tok Null))))"

definition readStoredToken :: "filesystem \<Rightarrow> exn + jsval" where
  "readStoredToken fs =
     (case readStoredToken_try fs of Inl e \<Rightarrow> Inr Null | Inr v \<Rightarrow> Inr v)"

text \<open>
  \<open>getAuthToken\<close>: \<open>process.env.QMD_AUTH_TOKEN || readStoredToken()\<close>. The environment
  variable is a string or \<open>undefined\<close>.
\<close>

definition env_value :: "string option \<Rightarrow> jsval" where
  "env_value env = (case env of None \<Rightarrow> Undefined | Some e \<Rightarrow> Str e)"

definition getAuthToken :: "string option \<Rightarrow> filesystem \<Rightarrow> exn + jsval" where
  "getAuthToken env fs =
     (if truthy (env_value env) then Inr (env_value env) else readStoredToken fs)"

text \<open>
  \<open>Buffer.toString("base64url")\<close>: the base 64 encoding of RFC 4648 with the URL-safe
  alphabet and no padding.
\<close>

definition base64url_alphabet :: string where
  "base64url_alphabet =
     ''ABCDEFGHIJKLMNOPQRSTUVWXYZabcdefghijklmnopqrstuvwxyz0123456789-_''"

definition base64url_char :: "nat \<Rightarrow> char" where
  "base64url_char n = base64url_alphabet ! (n mod 64)"

fun base64url :: "8 word list \<Rightarrow> string" where
  "base64url [] = []"
| "base64url [a] =
     [base64url_char (unat a div 4), base64url_char (unat a mod 4 * 16)]"
| "base64url [a, b] =
     [base64url_char (unat a div 4),
      base64url_char (unat a mod 4 * 16 + unat b div 16),
      base64url_char (unat b mod 16 * 4)]"
| "base64url (a # b # c # bs) =
     [base64url_char (unat a div 4),
      base64url_char (unat a mod 4 * 16 + unat b div 16),
      base64url_char (unat b mod 16 * 4 + unat c div 64),
      base64url_char (unat c mod 64)] @ base64url bs"

text \<open>
  \<open>generateToken\<close>, given the bytes \<open>randomBytes(32)\<close> returns and the time stamp
  \<open>new Date().toISOString()\<close> returns. The file is written with the pretty-printed
  configuration and a newline, which denote the same document.
\<close>

definition generateToken ::
  "8 word list \<Rightarrow> string \<Rightarrow> filesystem \<Rightarrow> (exn + string) \<times> filesystem" where
  "generateToken random_bytes now fs =
     (let token = base64url random_bytes in
      case mkdirSync fs of
        Inl e \<Rightarrow> (Inl e, fs)
      | Inr fs1 \<Rightarrow>
          (let config = Obj [(''token'', Str token), (''createdAt'', Str now)] in
           case JSON_stringify config of
             None \<Rightarrow> (Inl (Error ''The data argument must be of type string''), fs1)
           | Some d \<Rightarrow>
               (case writeFileSync (JSON d) fs1 of
                  Inl e \<Rightarrow> (Inl e, fs1)
                | Inr fs2 \<Rightarrow> (Inr token, fs2))))"

text \<open>
  \<open>revokeToken\<close>. Inside the \<open>try\<close> block \<open>unlinkSync\<close> is taken from \<open>require("fs")\<close>.
  The module is an ES module: whether \<open>require\<close> is defined there depends on the run
  time, and where it is not, the call throws a \<open>ReferenceError\<close>. Every exception of
  the block is swallowed and the result is then \<open>false\<close>.
\<close>

definition require_fs :: "bool \<Rightarrow> exn + unit" where
  "require_fs require_defined =
     (if require_defined then Inr ()
      else Inl (Error ''require is not defined in ES module scope, you can use import instead''))"

definition revokeToken :: "bool \<Rightarrow> filesystem \<Rightarrow> bool \<times> filesystem" where
  "revokeToken require_defined fs =
     (if existsSync fs then
        (case require_fs require_defined of
           Inl e \<Rightarrow> (False, fs)
         | Inr u \<Rightarrow>
             (case unlinkSync fs of
                Inr fs1 \<Rightarrow> (True, fs1)
              | Inl e \<Rightarrow> (False, fs)))
      else (False, fs))"

text \<open>
  When the file system lets \<open>generateToken\<close> store a token, and a file system for the
  examples in which everything is allowed, with a given entry at the path of the
  credential file.
\<close>

definition can_store_token :: "filesystem \<Rightarrow> bool" where
  "can_store_token fs =
     (case auth_file fs of
        Missing \<Rightarrow> (if config_dir fs then dir_writable fs else dir_creatable fs)
      | NotAFile \<Rightarrow> False
      | _ \<Rightarrow> (config_dir fs \<or> dir_creatable fs) \<and> file_writable fs)"

definition permissive :: "file_entry \<Rightarrow> filesystem" where
  "permissive f =
     \<lparr>auth_file = f, config_dir = True, dir_creatable = True, dir_writable = True,
      file_writable = True\<rparr>"

text \<open>
  The current token in the words of the specification, with what the code adds: an
  empty environment value counts as not set, and a token field that is not truthy
  (missing, empty, \<open>null\<close>, \<open>false\<close>, zero) counts as no token.
\<close>

definition stored_token_spec :: "file_entry \<Rightarrow> jsval" where
  "stored_token_spec f =
     (case f of
        Content (JSON (Obj kvs)) \<Rightarrow>
          (case map_of kvs ''token'' of
             Some v \<Rightarrow> if truthy v then v else Null
           | None \<Rightarrow> Null)
      | _ \<Rightarrow> Null)"

definition current_token_spec :: "string option \<Rightarrow> filesystem \<Rightarrow> jsval" where
  "current_token_spec env fs =
     (case env of
        Some (c # cs) \<Rightarrow> Str (c # cs)
      | _ \<Rightarrow> stored_token_spec (auth_file fs))"

section \<open>remote-server.ts: the inference server\<close>

subsection \<open>Strings\<close>

text \<open>
  Header values, methods and paths are strings of characters below 256. Upper-casing
  is modelled on the ASCII letters, which is all that the methods of HTTP hold.
\<close>

definition upper_char :: "char \<Rightarrow> char" where
  "upper_char c =
     (case map_of (zip ''abcdefghijklmnopqrstuvwxyz'' ''ABCDEFGHIJKLMNOPQRSTUVWXYZ'') c of
        None \<Rightarrow> c
      | Some u \<Rightarrow> u)"

definition toUpperCase :: "string \<Rightarrow> string" where
  "toUpperCase s = map upper_char s"

text \<open>The characters \<open>\s\<close> matches, among those below 256.\<close>

definition is_space :: "char \<Rightarrow> bool" where
  "is_space c =
     (c \<in> set [CHR 0x09, CHR 0x0A, CHR 0x0B, CHR 0x0C, CHR 0x0D, CHR 0x20, CHR 0xA0])"

text \<open>
  \<open>s.replace(/^Bearer\s+/i, "")\<close>: when the string starts with the letters of
  \<open>Bearer\<close> in any case followed by at least one white-space character, they and all
  the white space after them are removed; any other string is left as it is.
\<close>

definition strip_bearer :: "string \<Rightarrow> string" where
  "strip_bearer s =
     (let rest = drop 6 s in
      if toUpperCase (take 6 s) = ''BEARER'' \<and> rest \<noteq> [] \<and> is_space (hd rest)
      then dropWhile is_space rest
      else s)"

text \<open>The decimal numeral of a number, as a template literal prints it.\<close>

fun digits :: "nat \<Rightarrow> string" where
  "digits n =
     (if n < 10 then [''0123456789'' ! n]
      else digits (n div 10) @ [''0123456789'' ! (n mod 10)])"

declare digits.simps [simp del]

subsection \<open>Requests and responses\<close>

text \<open>
  A request as the handler reads it: the method, the path name of the parsed URL, the
  \<open>Authorization\<close> header, and the body. The body is \<open>None\<close> when reading the stream
  fails, and otherwise the text received. The handler parses the URL before anything
  else; the requests here are those whose URL parses.
\<close>

record request =
  req_method :: "string option"
  pathname :: string
  authorization :: "string option"
  payload :: "json_text option"

text \<open>A response: the status and the JSON document of the body.\<close>

record response =
  status :: nat
  body :: jsval

text \<open>
  \<open>sendJSON\<close> serialises the data first; for \<open>undefined\<close> there is no text and
  \<open>Buffer.byteLength\<close> throws before anything is sent.
\<close>

definition sendJSON :: "nat \<Rightarrow> jsval \<Rightarrow> exn + response" where
  "sendJSON st data =
     (case JSON_stringify data of
        None \<Rightarrow>
          Inl (Error (''The '' @ [CHR 0x22] @ ''string'' @ [CHR 0x22] @
            '' argument must be of type string or an instance of Buffer or ArrayBuffer. Received undefined''))
      | Some d \<Rightarrow> Inr \<lparr>status = st, body = d\<rparr>)"

definition sendError :: "nat \<Rightarrow> string \<Rightarrow> exn + response" where
  "sendError st msg = sendJSON st (Obj [(''error'', Str msg)])"

subsection \<open>The inference engine\<close>

text \<open>
  The engine (\<open>LlamaCpp\<close>) is outside the program: each operation takes its arguments
  and the state of the engine, and returns a result or throws, with the new state.
  \<open>tokenize\<close> returns an array of tokens.
\<close>

record 's engine =
  embed :: "jsval \<Rightarrow> jsval \<Rightarrow> 's \<Rightarrow> (exn + jsval) \<times> 's"
  embedBatch :: "jsval \<Rightarrow> 's \<Rightarrow> (exn + jsval) \<times> 's"
  generate :: "jsval \<Rightarrow> jsval \<Rightarrow> 's \<Rightarrow> (exn + jsval) \<times> 's"
  expandQuery :: "jsval \<Rightarrow> jsval \<Rightarrow> 's \<Rightarrow> (exn + jsval) \<times> 's"
  rerank :: "jsval \<Rightarrow> jsval \<Rightarrow> jsval \<Rightarrow> 's \<Rightarrow> (exn + jsval) \<times> 's"
  tokenize :: "jsval \<Rightarrow> 's \<Rightarrow> (exn + jsval list) \<times> 's"
  countTokens :: "jsval \<Rightarrow> 's \<Rightarrow> (exn + jsval) \<times> 's"
  detokenize :: "jsval \<Rightarrow> 's \<Rightarrow> (exn + jsval) \<times> 's"
  modelExists :: "jsval \<Rightarrow> 's \<Rightarrow> (exn + jsval) \<times> 's"
  getDeviceInfo :: "'s \<Rightarrow> (exn + jsval) \<times> 's"

subsection \<open>The request handler\<close>

text \<open>
  The destructuring \<open>const {k, ...} = body\<close> of a route: it throws when the body is
  \<open>null\<close> (or \<open>undefined\<close>), and reads the properties otherwise.
\<close>

definition destructure :: "jsval \<Rightarrow> string \<Rightarrow> exn + jsval" where
  "destructure b k =
     (if b = Null then
        Inl (Error (''Cannot destructure property '' @ [CHR 0x27] @ k @ [CHR 0x27] @ '' of ''
                    @ [CHR 0x27] @ ''body'' @ [CHR 0x27] @ '' as it is null.''))
      else if b = Undefined then
        Inl (Error (''Cannot destructure property '' @ [CHR 0x27] @ k @ [CHR 0x27] @ '' of ''
                    @ [CHR 0x27] @ ''body'' @ [CHR 0x27] @ '' as it is undefined.''))
      else get_field b k)"

text \<open>
  Sending the result of an awaited engine call with status 200, or passing its
  exception on: the two lines \<open>const result = await llm.op(...); sendJSON(res, 200, ...)\<close>
  that every route ends with, \<open>wrap\<close> being what the route makes of the result.
\<close>

definition send_result ::
  "(exn + 'a) \<times> 's \<Rightarrow> ('a \<Rightarrow> jsval) \<Rightarrow> (exn + response) \<times> 's" where
  "send_result outcome wrap =
     (case outcome of
        (Inl e, s') \<Rightarrow> (Inl e, s')
      | (Inr result, s') \<Rightarrow> (sendJSON 200 (wrap result), s'))"

text \<open>The \<open>switch\<close> on the path, inside the \<open>try\<close> block.\<close>

definition dispatch :: "'s engine \<Rightarrow> string \<Rightarrow> jsval \<Rightarrow> 's \<Rightarrow> (exn + response) \<times> 's" where
  "dispatch llm path b s =
     (if path = ''/embed'' then
        (case destructure b ''text'' of Inl e \<Rightarrow> (Inl e, s) | Inr text \<Rightarrow>
         case destructure b ''options'' of Inl e \<Rightarrow> (Inl e, s) | Inr options \<Rightarrow>
           send_result (embed llm text options s) (\<lambda>result. result))
      else if path = ''/embed-batch'' then
        (case destructure b ''texts'' of Inl e \<Rightarrow> (Inl e, s) | Inr texts \<Rightarrow>
           send_result (embedBatch llm texts s) (\<lambda>result. result))
      else if path = ''/generate'' then
        (case destructure b ''prompt'' of Inl e \<Rightarrow> (Inl e, s) | Inr prompt \<Rightarrow>
         case destructure b ''options'' of Inl e \<Rightarrow> (Inl e, s) | Inr options \<Rightarrow>
           send_result (generate llm prompt options s) (\<lambda>result. result))
      else if path = ''/expand-query'' then
        (case destructure b ''query'' of Inl e \<Rightarrow> (Inl e, s) | Inr query \<Rightarrow>
         case destructure b ''options'' of Inl e \<Rightarrow> (Inl e, s) | Inr options \<Rightarrow>
           send_result (expandQuery llm query options s) (\<lambda>result. result))
      else if path = ''/rerank'' then
        (case destructure b ''query'' of Inl e \<Rightarrow> (Inl e, s) | Inr query \<Rightarrow>
         case destructure b ''documents'' of Inl e \<Rightarrow> (Inl e, s) | Inr documents \<Rightarrow>
         case destructure b ''options'' of Inl e \<Rightarrow> (Inl e, s) | Inr options \<Rightarrow>
           send_result (rerank llm query documents options s) (\<lambda>result. result))
      else if path = ''/tokenize'' then
        (case destructure b ''text'' of Inl e \<Rightarrow> (Inl e, s) | Inr text \<Rightarrow>
           send_result (tokenize llm text s) (\<lambda>tokens. Obj [(''tokens'', Arr tokens)]))
      else if path = ''/count-tokens'' then
        (case destructure b ''text'' of Inl e \<Rightarrow> (Inl e, s) | Inr text \<Rightarrow>
           send_result (countTokens llm text s) (\<lambda>count. Obj [(''count'', count)]))
      else if path = ''/detokenize'' then
        (case destructure b ''tokens'' of Inl e \<Rightarrow> (Inl e, s) | Inr tokens \<Rightarrow>
           send_result (detokenize llm tokens s) (\<lambda>text. Obj [(''text'', text)]))
      else if path = ''/model-exists'' then
        (case destructure b ''model'' of Inl e \<Rightarrow> (Inl e, s) | Inr model \<Rightarrow>
           send_result (modelExists llm model s) (\<lambda>result. result))
      else (sendError 404 (''Unknown route: '' @ path), s))"

text \<open>
  The authentication check: with a truthy token configured, the header with a
  \<open>Bearer\<close> prefix removed must be the token.
\<close>

definition authenticated :: "string option \<Rightarrow> request \<Rightarrow> bool" where
  "authenticated token req =
     (case token of
        None \<Rightarrow> True
      | Some t \<Rightarrow>
          if t \<noteq> [] then map_option strip_bearer (authorization req) = Some t else True)"

text \<open>Reading the body and parsing it: the first \<open>try\<close> block.\<close>

definition read_json_body :: "request \<Rightarrow> exn + jsval" where
  "read_json_body req =
     (case payload req of
        None \<Rightarrow> Inl (Error ''aborted'')
      | Some raw \<Rightarrow> JSON_parse raw)"

text \<open>The handler after the authentication check; \<open>uptime\<close> is what \<open>process.uptime()\<close> returns.\<close>

definition route :: "'s engine \<Rightarrow> jsnum \<Rightarrow> request \<Rightarrow> 's \<Rightarrow> (exn + response) \<times> 's" where
  "route llm uptime req s =
     (let path = pathname req; method = map_option toUpperCase (req_method req) in
      if path = ''/health'' \<and> method = Some ''GET'' then
        (sendJSON 200 (Obj [(''status'', Str ''ok''), (''uptime'', Num uptime)]), s)
      else if path = ''/device'' \<and> method = Some ''GET'' then
        (case getDeviceInfo llm s of
           (Inl err, s') \<Rightarrow> (sendError 500 (message err), s')
         | (Inr info, s') \<Rightarrow>
             (case sendJSON 200 info of
                Inl err \<Rightarrow> (sendError 500 (message err), s')
              | Inr r \<Rightarrow> (Inr r, s')))
      else if method \<noteq> Some ''POST'' then (sendError 405 ''Method not allowed'', s)
      else
        (case read_json_body req of
           Inl e \<Rightarrow> (sendError 400 ''Invalid JSON body'', s)
         | Inr b \<Rightarrow>
             (case dispatch llm path b s of
                (Inl err, s') \<Rightarrow>
                  (sendError 500
                     (if message err \<noteq> [] then message err else ''Internal server error''), s')
              | (Inr r, s') \<Rightarrow> (Inr r, s'))))"

text \<open>
  The callback of \<open>createServer\<close> from the authentication check on (lines 108 to 221),
  for a request whose URL has been parsed. A result \<open>Inl\<close> is an exception that leaves
  the callback.
\<close>

definition handler ::
  "string option \<Rightarrow> 's engine \<Rightarrow> jsnum \<Rightarrow> request \<Rightarrow> 's \<Rightarrow> (exn + response) \<times> 's" where
  "handler token llm uptime req s =
     (if \<not> authenticated token req then (sendError 401 ''Unauthorized'', s)
      else route llm uptime req s)"

text \<open>
  The listener over a sequence of requests whose URLs parse, each with the uptime at
  its arrival and handled after the one before it: one response per request, until
  an exception leaves a handler, which ends the process.
\<close>

fun serve ::
  "string option \<Rightarrow> 's engine \<Rightarrow> (jsnum \<times> request) list \<Rightarrow> 's \<Rightarrow> response list \<times> 's" where
  "serve token llm [] s = ([], s)"
| "serve token llm ((uptime, req) # reqs) s =
     (case handler token llm uptime req s of
        (Inl e, s') \<Rightarrow> ([], s')
      | (Inr r, s') \<Rightarrow> (case serve token llm reqs s' of (rs, s'') \<Rightarrow> (r # rs, s'')))"

subsection \<open>The callback of the server\<close>

text \<open>
  A message as it comes in: the method, the \<open>Authorization\<close> header, the body, and
  what \<open>new URL(req.url || "/", `http://${req.headers.host || "localhost"}`)\<close> makes of
  the request target and the \<open>Host\<close> header: the path name, or \<open>None\<close> when the
  constructor throws (as it does for the target \<open>//\<close>, or for a \<open>Host\<close> header that is
  no host).
\<close>

record incoming_message =
  msg_method :: "string option"
  msg_url :: "string option"
  msg_authorization :: "string option"
  msg_body :: "json_text option"

definition parsed_request :: "incoming_message \<Rightarrow> string \<Rightarrow> request" where
  "parsed_request msg path =
     \<lparr>req_method = msg_method msg, pathname = path,
      authorization = msg_authorization msg, payload = msg_body msg\<rparr>"

text \<open>
  The whole callback of \<open>createServer\<close> (lines 103 to 222). The URL is parsed first,
  before the authentication check and outside every \<open>try\<close> block: when the
  constructor throws, the exception leaves the callback and nothing is sent.
\<close>

definition requestListener ::
  "string option \<Rightarrow> 's engine \<Rightarrow> jsnum \<Rightarrow> incoming_message \<Rightarrow> 's \<Rightarrow> (exn + response) \<times> 's" where
  "requestListener token llm uptime msg s =
     (case msg_url msg of
        None \<Rightarrow> (Inl (Error ''Invalid URL''), s)
      | Some path \<Rightarrow> handler token llm uptime (parsed_request msg path) s)"

text \<open>
  The listener over the messages that come in: an exception that leaves the callback
  is an unhandled rejection, which ends the process.
\<close>

fun listen ::
  "string option \<Rightarrow> 's engine \<Rightarrow> (jsnum \<times> incoming_message) list \<Rightarrow> 's \<Rightarrow> response list \<times> 's" where
  "listen token llm [] s = ([], s)"
| "listen token llm ((uptime, msg) # msgs) s =
     (case requestListener token llm uptime msg s of
        (Inl e, s') \<Rightarrow> ([], s')
      | (Inr r, s') \<Rightarrow> (case listen token llm msgs s' of (rs, s'') \<Rightarrow> (r # rs, s'')))"

text \<open>The message of a request whose URL parses.\<close>

definition message_of :: "request \<Rightarrow> incoming_message" where
  "message_of req =
     \<lparr>msg_method = req_method req, msg_url = Some (pathname req),
      msg_authorization = authorization req, msg_body = payload req\<rparr>"

text \<open>
  A header in the words of the specification: it carries the \<open>Bearer\<close> prefix when it
  starts with the six letters of \<open>Bearer\<close>, in any case, and a white-space character.
\<close>

definition bearer_prefixed :: "string \<Rightarrow> bool" where
  "bearer_prefixed h =
     (case drop 6 h of
        [] \<Rightarrow> False
      | w # r \<Rightarrow> toUpperCase (take 6 h) = ''BEARER'' \<and> is_space w)"

subsection \<open>The routes in the words of the specification\<close>

text \<open>The nine inference paths.\<close>

definition inference_paths :: "string list" where
  "inference_paths =
     [''/embed'', ''/embed-batch'', ''/generate'', ''/expand-query'', ''/rerank'',
      ''/tokenize'', ''/count-tokens'', ''/detokenize'', ''/model-exists'']"

text \<open>The field of a parsed body that is not \<open>null\<close>: \<open>undefined\<close> when it is missing.\<close>

definition field :: "jsval \<Rightarrow> string \<Rightarrow> jsval" where
  "field b k =
     (case b of
        Obj kvs \<Rightarrow> (case map_of kvs k of None \<Rightarrow> Undefined | Some v \<Rightarrow> v)
      | _ \<Rightarrow> Undefined)"

text \<open>
  The engine operation that the route of a path invokes on a parsed body, with the
  fields of the body as arguments, and its outcome: the result as the endpoint
  returns it (\<open>/tokenize\<close>, \<open>/count-tokens\<close> and \<open>/detokenize\<close> put theirs in an object) or
  the exception. No operation is invoked for an unknown path, or for the body \<open>null\<close>.
\<close>

definition enveloped :: "(exn + 'a) \<times> 's \<Rightarrow> ('a \<Rightarrow> jsval) \<Rightarrow> (exn + jsval) \<times> 's" where
  "enveloped outcome wrap =
     (case outcome of
        (Inl e, s') \<Rightarrow> (Inl e, s')
      | (Inr result, s') \<Rightarrow> (Inr (wrap result), s'))"

definition operation_outcome ::
  "'s engine \<Rightarrow> string \<Rightarrow> jsval \<Rightarrow> 's \<Rightarrow> ((exn + jsval) \<times> 's) option" where
  "operation_outcome llm path b s =
     (if b = Null \<or> b = Undefined then None
      else if path = ''/embed'' then
        Some (embed llm (field b ''text'') (field b ''options'') s)
      else if path = ''/embed-batch'' then
        Some (embedBatch llm (field b ''texts'') s)
      else if path = ''/generate'' then
        Some (generate llm (field b ''prompt'') (field b ''options'') s)
      else if path = ''/expand-query'' then
        Some (expandQuery llm (field b ''query'') (field b ''options'') s)
      else if path = ''/rerank'' then
        Some (rerank llm (field b ''query'') (field b ''documents'') (field b ''options'') s)
      else if path = ''/tokenize'' then
        Some (enveloped (tokenize llm (field b ''text'') s) (\<lambda>tokens. Obj [(''tokens'', Arr tokens)]))
      else if path = ''/count-tokens'' then
        Some (enveloped (countTokens llm (field b ''text'') s) (\<lambda>count. Obj [(''count'', count)]))
      else if path = ''/detokenize'' then
        Some (enveloped (detokenize llm (field b ''tokens'') s) (\<lambda>text. Obj [(''text'', text)]))
      else if path = ''/model-exists'' then
        Some (modelExists llm (field b ''model'') s)
      else None)"

text \<open>
  The result that a request asks for, when it yields one: the health report, the
  device information, or the result of the operation of an inference path.
\<close>

definition requested_result :: "'s engine \<Rightarrow> jsnum \<Rightarrow> request \<Rightarrow> 's \<Rightarrow> jsval option" where
  "requested_result llm uptime req s =
     (let path = pathname req; method = map_option toUpperCase (req_method req) in
      if path = ''/health'' \<and> method = Some ''GET'' then
        Some (Obj [(''status'', Str ''ok''), (''uptime'', Num uptime)])
      else if path = ''/device'' \<and> method = Some ''GET'' then
        (case getDeviceInfo llm s of (Inr info, s') \<Rightarrow> Some info | (Inl e, s') \<Rightarrow> None)
      else if method = Some ''POST'' then
        (case payload req of
           Some (JSON b) \<Rightarrow>
             (case operation_outcome llm path b s of
                Some (Inr data, s') \<Rightarrow> Some data
              | _ \<Rightarrow> None)
         | _ \<Rightarrow> None)
      else None)"

text \<open>The two shapes of a response.\<close>

definition error_envelope :: "jsval \<Rightarrow> bool" where
  "error_envelope d = (case d of Obj [(k, Str m)] \<Rightarrow> k = ''error'' | _ \<Rightarrow> False)"

definition success_status :: "nat \<Rightarrow> bool" where
  "success_status st = (200 \<le> st \<and> st \<le> 299)"

text \<open>
  The shape of a response to a request: the result asked for, serialised, with status
  200; or an error object with a status outside 200 to 299.
\<close>

definition well_shaped :: "'s engine \<Rightarrow> jsnum \<Rightarrow> request \<Rightarrow> 's \<Rightarrow> response \<Rightarrow> bool" where
  "well_shaped llm uptime req s r =
     (if status r = 200 then
        (case requested_result llm uptime req s of
           None \<Rightarrow> False
         | Some data \<Rightarrow> JSON_stringify data = Some (body r))
      else \<not> success_status (status r) \<and> error_envelope (body r))"

subsection \<open>An engine for the examples\<close>

text \<open>
  A small deterministic engine whose state counts the calls made. It embeds the empty
  text to a vector that is not a number, and \<open>generate\<close> throws for two prompts, once
  with a message and once without.
\<close>

definition sample_engine :: "nat engine" where
  "sample_engine =
     \<lparr>embed = (\<lambda>text options n.
        (Inr (Obj [(''embedding'',
                    if text = Str [] then Arr [Num NaN]
                    else Arr [Num (Finite (1 / 2)), Num (Finite (1 / 4))]),
                   (''model'', Str ''embeddinggemma'')]), Suc n)),
      embedBatch = (\<lambda>texts n. (Inr (Arr [Null]), Suc n)),
      generate = (\<lambda>prompt options n.
        if prompt = Str ''boom'' then (Inl (Error ''model failure''), Suc n)
        else if prompt = Str ''silent'' then (Inl (Error []), Suc n)
        else (Inr (Obj [(''text'', Str ''ok''), (''model'', Str ''qwen''), (''done'', Bool True)]),
              Suc n)),
      expandQuery = (\<lambda>query options n.
        (Inr (Arr [Obj [(''type'', Str ''lex''), (''text'', query)]]), Suc n)),
      rerank = (\<lambda>query documents options n.
        (Inr (Obj [(''results'', Arr []), (''model'', Str ''reranker'')]), Suc n)),
      tokenize = (\<lambda>text n. (Inr [Num (Finite 17), Num (Finite 4)], Suc n)),
      countTokens = (\<lambda>text n. (Inr (Num (Finite 2)), Suc n)),
      detokenize = (\<lambda>tokens n. (Inr (Str ''hello''), Suc n)),
      modelExists = (\<lambda>model n. (Inr (Obj [(''name'', model), (''exists'', Bool True)]), Suc n)),
      getDeviceInfo = (\<lambda>n.
        (Inr (Obj [(''gpu'', Bool False), (''gpuOffloading'', Bool False),
                   (''gpuDevices'', Arr []), (''cpuCores'', Num (Finite 8))]), Suc n))\<rparr>"

section \<open>remote-llm.ts: the remote proxy client\<close>


record RemoteLLM =
  baseUrl :: string
  authToken :: "string option"
  timeoutMs :: nat


text \<open>
  What \<open>fetch\<close> is called with (the signal is that of a controller which a timer aborts
  after the given number of milliseconds), and what it yields: a rejection (the
  network fails, or the timer aborts the request), or a response, of which the
  program reads the status, the text (\<open>None\<close> when reading it fails) and the parsed
  JSON.
\<close>

record http_request =
  fetch_url :: string
  fetch_method :: string
  fetch_headers :: "(string \<times> string) list"
  fetch_body :: "json_text option"
  fetch_signal :: nat

record http_response =
  resp_status :: nat
  resp_text :: "string option"
  resp_json :: "exn + jsval"

datatype fetch_result = Rejected exn | Responded http_response

definition ok :: "http_response \<Rightarrow> bool" where
  "ok resp = (200 \<le> resp_status resp \<and> resp_status resp \<le> 299)"

definition authorization_header :: "RemoteLLM \<Rightarrow> (string \<times> string) list" where
  "authorization_header this =
     (case authToken this of
        None \<Rightarrow> []
      | Some t \<Rightarrow> if t \<noteq> [] then [(''Authorization'', ''Bearer '' @ t)] else [])"

definition post_request :: "RemoteLLM \<Rightarrow> string \<Rightarrow> jsval \<Rightarrow> http_request" where
  "post_request this path b =
     \<lparr>fetch_url = baseUrl this @ path,
      fetch_method = ''POST'',
      fetch_headers = (''Content-Type'', ''application/json'') # authorization_header this,
      fetch_body = map_option JSON (JSON_stringify b),
      fetch_signal = timeoutMs this\<rparr>"

definition get_request :: "RemoteLLM \<Rightarrow> string \<Rightarrow> http_request" where
  "get_request this path =
     \<lparr>fetch_url = baseUrl this @ path,
      fetch_method = ''GET'',
      fetch_headers = authorization_header this,
      fetch_body = None,
      fetch_signal = timeoutMs this\<rparr>"

text \<open>
  After \<open>fetch\<close>, \<open>post\<close> and \<open>get\<close> do the same: a response that is not \<open>ok\<close> becomes an
  exception with the path, the status and the text of the body; an \<open>ok\<close> one yields
  its JSON. Before \<open>fetch\<close> a timer is set that aborts the request after \<open>timeoutMs\<close>
  milliseconds, and it is cleared afterwards.
\<close>

definition receive :: "string \<Rightarrow> fetch_result \<times> 'w \<Rightarrow> (exn + jsval) \<times> 'w" where
  "receive path outcome =
     (case outcome of
        (Rejected e, w') \<Rightarrow> (Inl e, w')
      | (Responded resp, w') \<Rightarrow>
          if \<not> ok resp then
            (Inl (Error (''QMD remote '' @ path @ '' failed ('' @ digits (resp_status resp) @ ''): ''
                         @ (case resp_text resp of None \<Rightarrow> [] | Some t \<Rightarrow> t))), w')
          else (resp_json resp, w'))"

definition post ::
  "RemoteLLM \<Rightarrow> (http_request \<Rightarrow> 'w \<Rightarrow> fetch_result \<times> 'w) \<Rightarrow> string \<Rightarrow> jsval \<Rightarrow> 'w
     \<Rightarrow> (exn + jsval) \<times> 'w" where
  "post this fetch path b w = receive path (fetch (post_request this path b) w)"

definition get ::
  "RemoteLLM \<Rightarrow> (http_request \<Rightarrow> 'w \<Rightarrow> fetch_result \<times> 'w) \<Rightarrow> string \<Rightarrow> 'w
     \<Rightarrow> (exn + jsval) \<times> 'w" where
  "get this fetch path w = receive path (fetch (get_request this path) w)"

text \<open>Reading one property of the result of a call: \<open>result.k\<close>.\<close>

definition unwrap :: "(exn + jsval) \<times> 'w \<Rightarrow> string \<Rightarrow> (exn + jsval) \<times> 'w" where
  "unwrap outcome k =
     (case outcome of
        (Inl e, w') \<Rightarrow> (Inl e, w')
      | (Inr result, w') \<Rightarrow> (get_field result k, w'))"

text \<open>
  The operations of the interface, on the engine and on the proxy. The tokens that
  \<open>detokenize\<close> takes are an array, of which \<open>Array.from\<close> makes a copy.
\<close>

datatype call =
    Embed jsval jsval
  | Generate jsval jsval
  | ModelExists jsval
  | ExpandQuery jsval jsval
  | Rerank jsval jsval jsval
  | EmbedBatch jsval
  | Tokenize jsval
  | CountTokens jsval
  | Detokenize "jsval list"
  | GetDeviceInfo


fun remote_call ::
  "RemoteLLM \<Rightarrow> (http_request \<Rightarrow> 'w \<Rightarrow> fetch_result \<times> 'w) \<Rightarrow> call \<Rightarrow> 'w
     \<Rightarrow> (exn + jsval) \<times> 'w" where
  "remote_call this fetch (Embed text options) w =
     post this fetch ''/embed'' (Obj [(''text'', text), (''options'', options)]) w"
| "remote_call this fetch (Generate prompt options) w =
     post this fetch ''/generate'' (Obj [(''prompt'', prompt), (''options'', options)]) w"
| "remote_call this fetch (ModelExists model) w =
     post this fetch ''/model-exists'' (Obj [(''model'', model)]) w"
| "remote_call this fetch (ExpandQuery query options) w =
     post this fetch ''/expand-query'' (Obj [(''query'', query), (''options'', options)]) w"
| "remote_call this fetch (Rerank query documents options) w =
     post this fetch ''/rerank''
       (Obj [(''query'', query), (''documents'', documents), (''options'', options)]) w"
| "remote_call this fetch (EmbedBatch texts) w =
     post this fetch ''/embed-batch'' (Obj [(''texts'', texts)]) w"
| "remote_call this fetch (Tokenize text) w =
     unwrap (post this fetch ''/tokenize'' (Obj [(''text'', text)]) w) ''tokens''"
| "remote_call this fetch (CountTokens text) w =
     unwrap (post this fetch ''/count-tokens'' (Obj [(''text'', text)]) w) ''count''"
| "remote_call this fetch (Detokenize tokens) w =
     unwrap (post this fetch ''/detokenize'' (Obj [(''tokens'', Arr tokens)]) w) ''text''"
| "remote_call this fetch GetDeviceInfo w = get this fetch ''/device'' w"

text \<open>The path of the request that a call of the proxy sends.\<close>

fun call_path :: "call \<Rightarrow> string" where
  "call_path (Embed text options) = ''/embed''"
| "call_path (Generate prompt options) = ''/generate''"
| "call_path (ModelExists model) = ''/model-exists''"
| "call_path (ExpandQuery query options) = ''/expand-query''"
| "call_path (Rerank query documents options) = ''/rerank''"
| "call_path (EmbedBatch texts) = ''/embed-batch''"
| "call_path (Tokenize text) = ''/tokenize''"
| "call_path (CountTokens text) = ''/count-tokens''"
| "call_path (Detokenize tokens) = ''/detokenize''"
| "call_path GetDeviceInfo = ''/device''"

section \<open>The proxy pointed at a server\<close>







text \<open>
  Values that JSON carries unchanged, and the conditions under which a call through
  the proxy is the call on the engine. The token, when there is one, is a string of
  characters below 256 (\<open>fetch\<close> refuses any other in a header), holds no control
  character, does not start with white space and does not end with a space or a
  tab, so that the header arrives as it was built and the server finds the token in
  it. The network delivers the request of the call to the server, with the
  path of the call as its path name, and the response comes back before the timer
  of the proxy fires. Every argument is \<open>undefined\<close> or a JSON value; and the engine
  returns, with a JSON value (for \<open>countTokens\<close> and \<open>detokenize\<close>, \<open>undefined\<close> too).
\<close>

definition is_json :: "jsval \<Rightarrow> bool" where
  "is_json v = (JSON_stringify v = Some v)"

definition json_or_undefined :: "jsval \<Rightarrow> bool" where
  "json_or_undefined v = (v = Undefined \<or> is_json v)"








section \<open>The credential store: properties\<close>

lemma base64url_length: "length (base64url bs) = (4 * length bs + 2) div 3"
  by (induction bs rule: base64url.induct) simp_all

lemma base64url_nonempty: "bs \<noteq> [] \<Longrightarrow> base64url bs \<noteq> []"
  by (cases bs rule: base64url.cases) simp_all

lemma readStoredToken_returns: "\<exists>v. readStoredToken fs = Inr v"
  by (simp add: readStoredToken_def split: sum.splits)

lemma readStoredToken_Missing: "auth_file fs = Missing \<Longrightarrow> readStoredToken fs = Inr Null"
  by (simp add: readStoredToken_def readStoredToken_try_def existsSync_def)

lemma readStoredToken_NotAFile: "auth_file fs = NotAFile \<Longrightarrow> readStoredToken fs = Inr Null"
  by (simp add: readStoredToken_def readStoredToken_try_def existsSync_def readFileSync_def)

lemma readStoredToken_Unreadable: "auth_file fs = Unreadable \<Longrightarrow> readStoredToken fs = Inr Null"
  by (simp add: readStoredToken_def readStoredToken_try_def existsSync_def readFileSync_def)

lemma readStoredToken_Content:
  "auth_file fs = Content t \<Longrightarrow>
   readStoredToken fs =
     (case t of
        NotJSON \<Rightarrow> Inr Null
      | JSON d \<Rightarrow> (case get_field d ''token'' of Inl e \<Rightarrow> Inr Null | Inr v \<Rightarrow> Inr (js_or v Null)))"
  by (simp add: readStoredToken_def readStoredToken_try_def existsSync_def readFileSync_def
      split: json_text.splits sum.splits)

lemma generateToken_result:
  "generateToken random_bytes now fs = (Inr tok, fs1) \<Longrightarrow>
   tok = base64url random_bytes \<and>
   (if auth_file fs = Unreadable then auth_file fs1 = Unreadable
    else auth_file fs1 = Content (JSON (Obj [(''token'', Str tok), (''createdAt'', Str now)])))"
  by (auto simp: generateToken_def mkdirSync_def writeFileSync_def Let_def
      split: if_splits file_entry.splits)

lemma generateToken_succeeds:
  "can_store_token fs \<Longrightarrow>
   fst (generateToken random_bytes now fs) = Inr (base64url random_bytes)"
  by (auto simp: can_store_token_def generateToken_def mkdirSync_def writeFileSync_def Let_def
      split: if_splits file_entry.splits)

lemma revokeToken_deletes:
  "auth_file fs \<noteq> Missing \<Longrightarrow> auth_file fs \<noteq> NotAFile \<Longrightarrow> dir_writable fs \<Longrightarrow>
   revokeToken True fs = (True, fs\<lparr>auth_file := Missing\<rparr>)"
  by (cases "auth_file fs")
    (simp_all add: revokeToken_def existsSync_def require_fs_def unlinkSync_def)

lemma revokeToken_deleted:
  "revokeToken require_defined fs = (True, fs2) \<Longrightarrow> auth_file fs2 = Missing"
  by (auto simp: revokeToken_def unlinkSync_def split: if_splits sum.splits file_entry.splits)

lemma revokeToken_nothing:
  "auth_file fs = Missing \<Longrightarrow> revokeToken require_defined fs = (False, fs)"
  by (simp add: revokeToken_def existsSync_def)

lemma getAuthToken_Missing: "auth_file fs = Missing \<Longrightarrow> getAuthToken None fs = Inr Null"
  by (simp add: getAuthToken_def env_value_def readStoredToken_Missing)

text \<open>
  Where \<open>require\<close> is not defined, \<open>revokeToken\<close> deletes nothing, whatever the file
  system allows: the \<open>ReferenceError\<close> is swallowed with the other exceptions.
\<close>

lemma revokeToken_without_require: "revokeToken False fs = (False, fs)"
  by (simp add: revokeToken_def require_fs_def)

text \<open>
  C9 (as amended). With no environment override. \<open>generateToken\<close> returns its token
  whenever the file system lets the token be stored, and when it has returned,
  \<open>getAuthToken\<close> returns the token just generated, unless the file was there before
  and cannot be read. Where \<open>require\<close> is defined, \<open>revokeToken\<close> deletes a credential
  file whose directory allows it and returns \<open>true\<close>, and \<open>getAuthToken\<close> then returns
  \<open>null\<close>; with no file there, \<open>revokeToken\<close> returns \<open>false\<close> and \<open>getAuthToken\<close> returns
  \<open>null\<close>; and after every \<open>revokeToken\<close> that returns \<open>true\<close>, \<open>getAuthToken\<close> returns \<open>null\<close>.
\<close>

theorem credential_generate_revoke:
  "(length random_bytes = 32 \<longrightarrow>
      (can_store_token fs \<longrightarrow>
         fst (generateToken random_bytes now fs) = Inr (base64url random_bytes))
      \<and> (generateToken random_bytes now fs = (Inr tok, fs_gen) \<longrightarrow> auth_file fs \<noteq> Unreadable \<longrightarrow>
         getAuthToken None fs_gen = Inr (Str tok)))
   \<and> (auth_file fs \<noteq> Missing \<longrightarrow> auth_file fs \<noteq> NotAFile \<longrightarrow> dir_writable fs \<longrightarrow>
        revokeToken True fs = (True, fs\<lparr>auth_file := Missing\<rparr>)
        \<and> getAuthToken None (fs\<lparr>auth_file := Missing\<rparr>) = Inr Null)
   \<and> (auth_file fs = Missing \<longrightarrow>
        revokeToken require_defined fs = (False, fs) \<and> getAuthToken None fs = Inr Null)
   \<and> (revokeToken require_defined fs = (True, fs_rev) \<longrightarrow> getAuthToken None fs_rev = Inr Null)"
proof (intro conjI impI)
  assume "can_store_token fs"
  then show "fst (generateToken random_bytes now fs) = Inr (base64url random_bytes)"
    by (rule generateToken_succeeds)
next
  assume len: "length random_bytes = 32"
    and gen: "generateToken random_bytes now fs = (Inr tok, fs_gen)"
    and readable: "auth_file fs \<noteq> Unreadable"
  from len have "random_bytes \<noteq> []" by auto
  then have "base64url random_bytes \<noteq> []" by (rule base64url_nonempty)
  with generateToken_result [OF gen] readable have "tok \<noteq> []"
    and written: "auth_file fs_gen = Content (JSON (Obj [(''token'', Str tok), (''createdAt'', Str now)]))"
    by simp_all
  then show "getAuthToken None fs_gen = Inr (Str tok)"
    by (simp add: getAuthToken_def env_value_def readStoredToken_Content js_or_def)
next
  assume "auth_file fs \<noteq> Missing" "auth_file fs \<noteq> NotAFile" "dir_writable fs"
  then show "revokeToken True fs = (True, fs\<lparr>auth_file := Missing\<rparr>)"
    by (rule revokeToken_deletes)
next
  show "getAuthToken None (fs\<lparr>auth_file := Missing\<rparr>) = Inr Null"
    by (simp add: getAuthToken_Missing)
next
  assume "auth_file fs = Missing"
  then show "revokeToken require_defined fs = (False, fs)"
    by (rule revokeToken_nothing)
next
  assume "auth_file fs = Missing"
  then show "getAuthToken None fs = Inr Null"
    by (rule getAuthToken_Missing)
next
  assume "revokeToken require_defined fs = (True, fs_rev)"
  then have "auth_file fs_rev = Missing" by (rule revokeToken_deleted)
  then show "getAuthToken None fs_rev = Inr Null"
    by (rule getAuthToken_Missing)
qed

theorem credential_generate_revoke_witness:
  "getAuthToken None
     (snd (generateToken (replicate 32 0) ''2026-01-01T00:00:00.000Z'' (permissive Missing)))
     = Inr (Str (base64url (replicate 32 0)))
   \<and> revokeToken True (permissive (Content (JSON (Obj [(''token'', Str ''abc'')]))))
     = (True, permissive Missing)
   \<and> getAuthToken None
     (snd (revokeToken True (permissive (Content (JSON (Obj [(''token'', Str ''abc'')]))))))
     = Inr Null"
proof -
  let ?gs = "permissive (Content (JSON (Obj [(''token'', Str ''abc'')])))"
  have len: "length (replicate 32 (0 :: 8 word)) = 32" by simp
  have can: "can_store_token (permissive Missing)"
    by (simp add: can_store_token_def permissive_def)
  have readable: "auth_file (permissive Missing) \<noteq> Unreadable"
    by (simp add: permissive_def)
  from credential_generate_revoke
    [of "replicate 32 0" "permissive Missing" "''2026-01-01T00:00:00.000Z''"
        "base64url (replicate 32 0)"
        "snd (generateToken (replicate 32 0) ''2026-01-01T00:00:00.000Z'' (permissive Missing))"]
    len can readable
  have one: "getAuthToken None
      (snd (generateToken (replicate 32 0) ''2026-01-01T00:00:00.000Z'' (permissive Missing)))
      = Inr (Str (base64url (replicate 32 0)))"
    by (metis prod.collapse)
  have pre: "auth_file ?gs \<noteq> Missing" "auth_file ?gs \<noteq> NotAFile" "dir_writable ?gs"
    by (simp_all add: permissive_def)
  from credential_generate_revoke [where fs = ?gs] pre
  have two: "revokeToken True ?gs = (True, ?gs\<lparr>auth_file := Missing\<rparr>)"
    by blast
  have three: "?gs\<lparr>auth_file := Missing\<rparr> = permissive Missing"
    by (simp add: permissive_def)
  from credential_generate_revoke [where fs = ?gs and fs_rev = "permissive Missing"
      and require_defined = True] two three
  have four: "getAuthToken None (permissive Missing) = Inr Null"
    by simp
  from one two three four show ?thesis by simp
qed

text \<open>
  C9 as stated fails where the deletion fails: the directory does not allow it,
  \<open>unlinkSync\<close> throws, \<open>revokeToken\<close> swallows the exception and returns \<open>false\<close>, and
  the stored token is still the current one. It also fails where the credential
  file is there and cannot be read: \<open>generateToken\<close> rewrites it and returns, and
  \<open>getAuthToken\<close> returns \<open>null\<close>.
\<close>

theorem revoke_then_get_counterexample:
  "revokeToken True
     \<lparr>auth_file = Content (JSON (Obj [(''token'', Str ''abc''), (''createdAt'', Str ''t'')])),
      config_dir = True, dir_creatable = False, dir_writable = False, file_writable = True\<rparr>
     = (False,
        \<lparr>auth_file = Content (JSON (Obj [(''token'', Str ''abc''), (''createdAt'', Str ''t'')])),
         config_dir = True, dir_creatable = False, dir_writable = False, file_writable = True\<rparr>)
   \<and> getAuthToken None
     (snd (revokeToken True
       \<lparr>auth_file = Content (JSON (Obj [(''token'', Str ''abc''), (''createdAt'', Str ''t'')])),
        config_dir = True, dir_creatable = False, dir_writable = False, file_writable = True\<rparr>))
     = Inr (Str ''abc'')
   \<and> fst (generateToken (replicate 32 0) ''2026-01-01T00:00:00.000Z'' (permissive Unreadable))
     = Inr (base64url (replicate 32 0))
   \<and> getAuthToken None
     (snd (generateToken (replicate 32 0) ''2026-01-01T00:00:00.000Z'' (permissive Unreadable)))
     = Inr Null"
  by (simp add: revokeToken_def existsSync_def require_fs_def unlinkSync_def getAuthToken_def
      env_value_def readStoredToken_Content readStoredToken_Unreadable js_or_def
      generateToken_def mkdirSync_def writeFileSync_def permissive_def Let_def)

lemma readStoredToken_spec: "readStoredToken fs = Inr (stored_token_spec (auth_file fs))"
proof (cases "auth_file fs")
  case Missing
  then show ?thesis by (simp add: readStoredToken_Missing stored_token_spec_def)
next
  case NotAFile
  then show ?thesis by (simp add: readStoredToken_NotAFile stored_token_spec_def)
next
  case Unreadable
  then show ?thesis by (simp add: readStoredToken_Unreadable stored_token_spec_def)
next
  case (Content t)
  show ?thesis
  proof (cases t)
    case NotJSON
    with Content show ?thesis by (simp add: readStoredToken_Content stored_token_spec_def)
  next
    case (JSON d)
    with Content show ?thesis
      by (cases d) (simp_all add: readStoredToken_Content stored_token_spec_def js_or_def
          split: option.splits)
  qed
qed

text \<open>
  C10 (as amended). \<open>getAuthToken\<close> never throws: in every state of the environment and
  the file system it returns a value, which is the environment's token when that is
  set and not empty, otherwise the truthy token field of the credential file, and
  \<open>null\<close> when the file is missing, is not readable, is not JSON, or has no truthy token
  field.
\<close>

theorem getAuthToken_total_spec:
  "getAuthToken env fs = Inr (current_token_spec env fs)"
proof (cases env)
  case None
  then show ?thesis
    by (simp add: getAuthToken_def env_value_def current_token_spec_def readStoredToken_spec)
next
  case (Some e)
  then show ?thesis
    by (cases e)
      (simp_all add: getAuthToken_def env_value_def current_token_spec_def readStoredToken_spec)
qed

theorem getAuthToken_total_spec_witness:
  "getAuthToken (Some ''s3cret'') (permissive (Content NotJSON)) = Inr (Str ''s3cret'')
   \<and> getAuthToken None (permissive (Content (JSON (Obj [(''token'', Str ''abc'')]))))
       = Inr (Str ''abc'')
   \<and> getAuthToken None (permissive (Content NotJSON)) = Inr Null
   \<and> getAuthToken None (permissive (Content (JSON Null))) = Inr Null"
  using getAuthToken_total_spec [of "Some ''s3cret''" "permissive (Content NotJSON)"]
    getAuthToken_total_spec [of None "permissive (Content (JSON (Obj [(''token'', Str ''abc'')])))"]
    getAuthToken_total_spec [of None "permissive (Content NotJSON)"]
    getAuthToken_total_spec [of None "permissive (Content (JSON Null))"]
  by (simp add: current_token_spec_def stored_token_spec_def permissive_def)

text \<open>
  C10 as stated fails where the environment variable is set to the empty string: the
  token of the file is returned, not the environment's; and where the token field of
  the file is the empty string: \<open>null\<close> is returned, not the field.
\<close>

theorem getAuthToken_empty_counterexample:
  "getAuthToken (Some '''') (permissive (Content (JSON (Obj [(''token'', Str ''abc'')]))))
     = Inr (Str ''abc'')
   \<and> getAuthToken None (permissive (Content (JSON (Obj [(''token'', Str '''')]))))
     = Inr Null"
  by (simp add: getAuthToken_def env_value_def readStoredToken_Content js_or_def permissive_def)

section \<open>The inference server: properties\<close>

lemma sendError_eq [simp]:
  "sendError st msg = Inr \<lparr>status = st, body = Obj [(''error'', Str msg)]\<rparr>"
  by (simp add: sendError_def sendJSON_def)

lemma sendJSON_Inr:
  "sendJSON st data = Inr r \<Longrightarrow> status r = st \<and> JSON_stringify data = Some (body r)"
  by (auto simp: sendJSON_def split: option.splits)

lemma sendJSON_Inl: "sendJSON st data = Inl e \<Longrightarrow> data = Undefined \<and> message e \<noteq> []"
  by (cases data) (auto simp: sendJSON_def)

lemma destructure_ok: "b \<noteq> Null \<Longrightarrow> b \<noteq> Undefined \<Longrightarrow> destructure b k = Inr (field b k)"
  by (cases b) (simp_all add: destructure_def field_def)

lemma destructure_throws:
  "b = Null \<or> b = Undefined \<Longrightarrow> \<exists>m. m \<noteq> [] \<and> destructure b k = Inl (Error m)"
  by (auto simp: destructure_def)

lemma send_result_enveloped:
  "send_result outcome wrap =
     (case enveloped outcome wrap of
        (Inl e, s') \<Rightarrow> (Inl e, s')
      | (Inr data, s') \<Rightarrow> (sendJSON 200 data, s'))"
  by (simp add: send_result_def enveloped_def split: prod.splits sum.splits)

lemma enveloped_id: "enveloped outcome (\<lambda>result. result) = outcome"
  by (simp add: enveloped_def split: prod.splits sum.splits)

text \<open>The \<open>switch\<close> invokes the operation of the path and sends its result.\<close>

lemma dispatch_operation:
  "b \<noteq> Null \<Longrightarrow> b \<noteq> Undefined \<Longrightarrow>
   dispatch llm path b s =
     (case operation_outcome llm path b s of
        None \<Rightarrow> (sendError 404 (''Unknown route: '' @ path), s)
      | Some (Inl e, s') \<Rightarrow> (Inl e, s')
      | Some (Inr data, s') \<Rightarrow> (sendJSON 200 data, s'))"
  unfolding dispatch_def operation_outcome_def
  by (simp add: destructure_ok send_result_enveloped enveloped_id del: sendError_eq
      split: prod.splits sum.splits)

lemma dispatch_no_body:
  "b = Null \<or> b = Undefined \<Longrightarrow>
   (\<exists>m. m \<noteq> [] \<and> dispatch llm path b s = (Inl (Error m), s)) \<or>
   dispatch llm path b s = (sendError 404 (''Unknown route: '' @ path), s)"
  unfolding dispatch_def
  by (auto simp: destructure_def simp del: sendError_eq)

lemma dispatch_unknown:
  "path \<notin> set inference_paths \<Longrightarrow>
   dispatch llm path b s = (sendError 404 (''Unknown route: '' @ path), s)"
  by (simp add: dispatch_def inference_paths_def del: sendError_eq)

text \<open>The branches of the handler after the authentication check.\<close>

lemma route_health:
  "pathname req = ''/health'' \<Longrightarrow> map_option toUpperCase (req_method req) = Some ''GET'' \<Longrightarrow>
   route llm uptime req s =
     (sendJSON 200 (Obj [(''status'', Str ''ok''), (''uptime'', Num uptime)]), s)"
  by (simp add: route_def del: map_option_eq_Some)

lemma route_device:
  "pathname req = ''/device'' \<Longrightarrow> map_option toUpperCase (req_method req) = Some ''GET'' \<Longrightarrow>
   route llm uptime req s =
     (case getDeviceInfo llm s of
        (Inl err, s') \<Rightarrow> (sendError 500 (message err), s')
      | (Inr info, s') \<Rightarrow>
          (case sendJSON 200 info of
             Inl err \<Rightarrow> (sendError 500 (message err), s')
           | Inr r \<Rightarrow> (Inr r, s')))"
  by (simp add: route_def del: sendError_eq map_option_eq_Some)

lemma route_not_post:
  "\<not> (map_option toUpperCase (req_method req) = Some ''GET'' \<and>
      (pathname req = ''/health'' \<or> pathname req = ''/device'')) \<Longrightarrow>
   map_option toUpperCase (req_method req) \<noteq> Some ''POST'' \<Longrightarrow>
   route llm uptime req s = (sendError 405 ''Method not allowed'', s)"
  by (auto simp: route_def Let_def simp del: sendError_eq map_option_eq_Some)

lemma route_bad_body:
  "map_option toUpperCase (req_method req) = Some ''POST'' \<Longrightarrow>
   payload req = None \<or> payload req = Some NotJSON \<Longrightarrow>
   route llm uptime req s = (sendError 400 ''Invalid JSON body'', s)"
  by (auto simp: route_def Let_def read_json_body_def simp del: sendError_eq map_option_eq_Some)

lemma route_post:
  "map_option toUpperCase (req_method req) = Some ''POST'' \<Longrightarrow>
   payload req = Some (JSON b) \<Longrightarrow>
   route llm uptime req s =
     (case dispatch llm (pathname req) b s of
        (Inl err, s') \<Rightarrow>
          (sendError 500 (if message err \<noteq> [] then message err else ''Internal server error''), s')
      | (Inr r, s') \<Rightarrow> (Inr r, s'))"
  by (simp add: route_def Let_def read_json_body_def del: sendError_eq map_option_eq_Some)

lemma requested_result_post:
  "map_option toUpperCase (req_method req) = Some ''POST'' \<Longrightarrow>
   payload req = Some (JSON b) \<Longrightarrow>
   requested_result llm uptime req s =
     (case operation_outcome llm (pathname req) b s of
        Some (Inr data, s') \<Rightarrow> Some data
      | _ \<Rightarrow> None)"
  by (simp add: requested_result_def Let_def del: map_option_eq_Some)

lemma error_shaped:
  "st \<noteq> 200 \<Longrightarrow> \<not> success_status st \<Longrightarrow>
   well_shaped llm uptime req s \<lparr>status = st, body = Obj [(''error'', Str m)]\<rparr>"
  by (simp add: well_shaped_def error_envelope_def)

text \<open>
  After the authentication check the handler always responds, with a well-shaped
  response whose status is one of 200, 400, 404, 405 and 500.
\<close>

lemma route_shaped:
  "\<exists>r s'. route llm uptime req s = (Inr r, s') \<and> well_shaped llm uptime req s r \<and>
     status r \<in> set [200, 400, 404, 405, 500]"
proof -
  let ?m = "map_option toUpperCase (req_method req)"
  consider (health) "pathname req = ''/health''" "?m = Some ''GET''"
    | (device) "pathname req = ''/device''" "?m = Some ''GET''"
    | (other) "\<not> (?m = Some ''GET'' \<and> (pathname req = ''/health'' \<or> pathname req = ''/device''))"
        "?m \<noteq> Some ''POST''"
    | (bad) "?m = Some ''POST''" "payload req = None \<or> payload req = Some NotJSON"
    | (post) b where "?m = Some ''POST''" "payload req = Some (JSON b)"
    by (cases "payload req" rule: option.exhaust; cases "the (payload req)"; auto)
  then show ?thesis
  proof cases
    case health
    then show ?thesis
      by (simp add: route_health sendJSON_def well_shaped_def requested_result_def
          del: map_option_eq_Some)
  next
    case device
    show ?thesis
    proof (cases "getDeviceInfo llm s")
      case (Pair out s')
      show ?thesis
      proof (cases out)
        case (Inl err)
        with Pair device show ?thesis
          by (simp add: route_device error_shaped success_status_def)
      next
        case (Inr info)
        show ?thesis
        proof (cases "sendJSON 200 info")
          case (Inl err)
          with Pair Inr device show ?thesis
            by (simp add: route_device error_shaped success_status_def)
        next
          case r: (Inr r)
          with Pair Inr device sendJSON_Inr [OF r] show ?thesis
            by (simp add: route_device well_shaped_def requested_result_def
                del: map_option_eq_Some)
        qed
      qed
    qed
  next
    case other
    then show ?thesis
      by (simp add: route_not_post error_shaped success_status_def)
  next
    case bad
    then show ?thesis
      by (simp add: route_bad_body error_shaped success_status_def)
  next
    case post
    note rp = route_post [OF post] and rr = requested_result_post [OF post]
    show ?thesis
    proof (cases "b = Null \<or> b = Undefined")
      case True
      from dispatch_no_body [OF True, of llm "pathname req" s] show ?thesis
        by (auto simp: rp error_shaped success_status_def)
    next
      case False
      then have d: "dispatch llm (pathname req) b s =
        (case operation_outcome llm (pathname req) b s of
           None \<Rightarrow> (sendError 404 (''Unknown route: '' @ pathname req), s)
         | Some (Inl e, s') \<Rightarrow> (Inl e, s')
         | Some (Inr data, s') \<Rightarrow> (sendJSON 200 data, s'))"
        by (simp add: dispatch_operation del: sendError_eq)
      show ?thesis
      proof (cases "operation_outcome llm (pathname req) b s")
        case None
        with d show ?thesis by (simp add: rp error_shaped success_status_def)
      next
        case (Some outcome)
        obtain out s' where o: "outcome = (out, s')" by (cases outcome)
        show ?thesis
        proof (cases out)
          case (Inl e)
          with d Some o show ?thesis by (simp add: rp error_shaped success_status_def)
        next
          case (Inr data)
          show ?thesis
          proof (cases "sendJSON 200 data")
            case (Inl e)
            with d Some o Inr show ?thesis by (simp add: rp error_shaped success_status_def)
          next
            case r: (Inr r)
            with d Some o Inr sendJSON_Inr [OF r] show ?thesis
              by (simp add: rp rr well_shaped_def)
          qed
        qed
      qed
    qed
  qed
qed

lemma handler_unauthenticated:
  "\<not> authenticated token req \<Longrightarrow>
   handler token llm uptime req s =
     (Inr \<lparr>status = 401, body = Obj [(''error'', Str ''Unauthorized'')]\<rparr>, s)"
  by (simp add: handler_def)

lemma handler_authenticated:
  "authenticated token req \<Longrightarrow> handler token llm uptime req s = route llm uptime req s"
  by (simp add: handler_def)

lemma handler_responds: "\<exists>r s'. handler token llm uptime req s = (Inr r, s')"
proof (cases "authenticated token req")
  case True
  with route_shaped [of llm uptime req s] show ?thesis
    by (auto simp: handler_authenticated)
next
  case False
  then show ?thesis by (simp add: handler_unauthenticated)
qed

lemma serve_length: "length (fst (serve token llm reqs s)) = length reqs"
proof (induction reqs arbitrary: s)
  case Nil
  show ?case by simp
next
  case (Cons a reqs)
  obtain uptime req where a: "a = (uptime, req)" by (cases a)
  from handler_responds [of token llm uptime req s]
  obtain r s' where h: "handler token llm uptime req s = (Inr r, s')" by blast
  from Cons [of s'] show ?case
    by (cases "serve token llm reqs s'") (simp add: a h)
qed

text \<open>What the pattern \<open>/^Bearer\s+/i\<close> removes.\<close>

lemma length_toUpperCase: "toUpperCase p = q \<Longrightarrow> length p = length q"
  by (auto simp: toUpperCase_def)

lemma strip_bearer_prefixed:
  assumes p: "toUpperCase p = ''BEARER''" and ws: "ws \<noteq> []" "list_all is_space ws"
    and t: "t = [] \<or> \<not> is_space (hd t)"
  shows "strip_bearer (p @ ws @ t) = t"
proof -
  from p have len: "length p = 6" by (auto dest: length_toUpperCase)
  from ws obtain w ws' where w: "ws = w # ws'" "is_space w" by (cases ws) auto
  from t have "dropWhile is_space t = t" by (cases t) auto
  with ws(2) have "dropWhile is_space (ws @ t) = t"
    by (simp add: dropWhile_append list_all_iff)
  with len p w show ?thesis
    by (simp add: strip_bearer_def)
qed

lemma authenticated_iff:
  "t \<noteq> [] \<Longrightarrow>
   authenticated (Some t) req = (map_option strip_bearer (authorization req) = Some t)"
  by (simp add: authenticated_def del: map_option_eq_Some)

lemma authenticated_no_token: "token = None \<or> token = Some [] \<Longrightarrow> authenticated token req"
  by (auto simp: authenticated_def)

text \<open>The callback is the handler of the parsed request, when the URL parses.\<close>

lemma requestListener_parsed:
  "msg_url msg = Some path \<Longrightarrow>
   requestListener token llm uptime msg s = handler token llm uptime (parsed_request msg path) s"
  by (simp add: requestListener_def)

lemma requestListener_unparsed:
  "msg_url msg = None \<Longrightarrow>
   requestListener token llm uptime msg s = (Inl (Error ''Invalid URL''), s)"
  by (simp add: requestListener_def)

lemma parsed_request_fields [simp]:
  "req_method (parsed_request msg path) = msg_method msg"
  "pathname (parsed_request msg path) = path"
  "authorization (parsed_request msg path) = msg_authorization msg"
  "payload (parsed_request msg path) = msg_body msg"
  by (simp_all add: parsed_request_def)

lemma bearer_prefixed_iff:
  "bearer_prefixed h = (\<exists>p w r. h = p @ w # r \<and> toUpperCase p = ''BEARER'' \<and> is_space w)"
proof
  assume "bearer_prefixed h"
  then obtain w r where d: "drop 6 h = w # r" and u: "toUpperCase (take 6 h) = ''BEARER''"
    and w: "is_space w"
    by (auto simp: bearer_prefixed_def split: list.splits)
  have "h = take 6 h @ drop 6 h" by simp
  with d have "h = take 6 h @ w # r" by simp
  with u w show "\<exists>p w r. h = p @ w # r \<and> toUpperCase p = ''BEARER'' \<and> is_space w" by blast
next
  assume "\<exists>p w r. h = p @ w # r \<and> toUpperCase p = ''BEARER'' \<and> is_space w"
  then obtain p w r where h: "h = p @ w # r" and u: "toUpperCase p = ''BEARER''" and w: "is_space w"
    by blast
  from u have "length p = 6" by (auto dest: length_toUpperCase)
  with h u w show "bearer_prefixed h"
    by (simp add: bearer_prefixed_def)
qed

lemma strip_bearer_unprefixed: "\<not> bearer_prefixed h \<Longrightarrow> strip_bearer h = h"
  by (cases "drop 6 h") (auto simp: strip_bearer_def bearer_prefixed_def Let_def)

lemma unauthorized:
  "\<not> authenticated token (parsed_request msg path) \<Longrightarrow> msg_url msg = Some path \<Longrightarrow>
   requestListener token llm uptime msg s =
     (Inr \<lparr>status = 401, body = Obj [(''error'', Str ''Unauthorized'')]\<rparr>, s)"
  by (simp add: requestListener_parsed handler_unauthenticated)

lemma authorized:
  "authenticated token (parsed_request msg path) \<Longrightarrow> msg_url msg = Some path \<Longrightarrow>
   requestListener token llm uptime msg s = route llm uptime (parsed_request msg path) s"
  by (simp add: requestListener_parsed handler_authenticated)

text \<open>
  C2 (as amended). For a server configured with a token \<open>t\<close> that is not empty, and every
  request whose URL parses, whatever its path and method. A request with no
  \<open>Authorization\<close> header is answered with 401 and \<open>{error: "Unauthorized"}\<close>, without any
  routing. A header that starts with \<open>Bearer\<close>, in any letter case, and white space is
  compared with \<open>t\<close> without them: the request goes to the routing when what follows
  the white space is \<open>t\<close> (so the header \<open>Bearer t\<close> passes when \<open>t\<close> does not start with
  white space), and is answered with 401 otherwise. A header that does not start
  so is compared with \<open>t\<close> as it is: the request goes to the routing when the header is
  \<open>t\<close>, and is answered with 401 otherwise.
\<close>

theorem bearer_authentication:
  "t \<noteq> [] \<Longrightarrow> msg_url msg = Some path \<Longrightarrow>
   (msg_authorization msg = None \<longrightarrow>
      requestListener (Some t) llm uptime msg s =
        (Inr \<lparr>status = 401, body = Obj [(''error'', Str ''Unauthorized'')]\<rparr>, s))
   \<and> (msg_authorization msg = Some (p @ ws @ r) \<and> toUpperCase p = ''BEARER'' \<and> ws \<noteq> [] \<and>
        list_all is_space ws \<and> (r = [] \<or> \<not> is_space (hd r)) \<longrightarrow>
      requestListener (Some t) llm uptime msg s =
        (if r = t then route llm uptime (parsed_request msg path) s
         else (Inr \<lparr>status = 401, body = Obj [(''error'', Str ''Unauthorized'')]\<rparr>, s)))
   \<and> (msg_authorization msg = Some h \<and>
        (\<forall>p w r. h = p @ w # r \<longrightarrow> toUpperCase p = ''BEARER'' \<longrightarrow> \<not> is_space w) \<longrightarrow>
      requestListener (Some t) llm uptime msg s =
        (if h = t then route llm uptime (parsed_request msg path) s
         else (Inr \<lparr>status = 401, body = Obj [(''error'', Str ''Unauthorized'')]\<rparr>, s)))"
proof (intro conjI impI)
  assume t: "t \<noteq> []" and u: "msg_url msg = Some path"
  note a = authenticated_iff [OF t, of "parsed_request msg path"]
  {
    assume "msg_authorization msg = None"
    then have "\<not> authenticated (Some t) (parsed_request msg path)"
      by (simp add: a)
    then show "requestListener (Some t) llm uptime msg s =
        (Inr \<lparr>status = 401, body = Obj [(''error'', Str ''Unauthorized'')]\<rparr>, s)"
      using u by (rule unauthorized)
  next
    assume h: "msg_authorization msg = Some (p @ ws @ r) \<and> toUpperCase p = ''BEARER'' \<and> ws \<noteq> [] \<and>
        list_all is_space ws \<and> (r = [] \<or> \<not> is_space (hd r))"
    then have "strip_bearer (p @ ws @ r) = r"
      by (intro strip_bearer_prefixed) simp_all
    with h have "authenticated (Some t) (parsed_request msg path) = (r = t)"
      by (simp add: a)
    then show "requestListener (Some t) llm uptime msg s =
        (if r = t then route llm uptime (parsed_request msg path) s
         else (Inr \<lparr>status = 401, body = Obj [(''error'', Str ''Unauthorized'')]\<rparr>, s))"
      using unauthorized [OF _ u] authorized [OF _ u] by (cases "r = t") simp_all
  next
    assume h: "msg_authorization msg = Some h \<and>
        (\<forall>p w r. h = p @ w # r \<longrightarrow> toUpperCase p = ''BEARER'' \<longrightarrow> \<not> is_space w)"
    then have "\<not> bearer_prefixed h"
      by (auto simp: bearer_prefixed_iff)
    then have "strip_bearer h = h" by (rule strip_bearer_unprefixed)
    with h have "authenticated (Some t) (parsed_request msg path) = (h = t)"
      by (simp add: a)
    then show "requestListener (Some t) llm uptime msg s =
        (if h = t then route llm uptime (parsed_request msg path) s
         else (Inr \<lparr>status = 401, body = Obj [(''error'', Str ''Unauthorized'')]\<rparr>, s))"
      using unauthorized [OF _ u] authorized [OF _ u] by (cases "h = t") simp_all
  }
qed

theorem bearer_authentication_witness:
  "requestListener (Some ''s3cret'') sample_engine (Finite 5)
      \<lparr>msg_method = Some ''GET'', msg_url = Some ''/health'',
       msg_authorization = Some ''bearer  s3cret'', msg_body = None\<rparr> 0
     = (Inr \<lparr>status = 200, body = Obj [(''status'', Str ''ok''), (''uptime'', Num (Finite 5))]\<rparr>, 0)
   \<and> requestListener (Some ''s3cret'') sample_engine (Finite 5)
      \<lparr>msg_method = Some ''GET'', msg_url = Some ''/health'',
       msg_authorization = Some ''Bearer wrong'', msg_body = None\<rparr> 0
     = (Inr \<lparr>status = 401, body = Obj [(''error'', Str ''Unauthorized'')]\<rparr>, 0)
   \<and> requestListener (Some ''s3cret'') sample_engine (Finite 5)
      \<lparr>msg_method = Some ''GET'', msg_url = Some ''/health'',
       msg_authorization = None, msg_body = None\<rparr> 0
     = (Inr \<lparr>status = 401, body = Obj [(''error'', Str ''Unauthorized'')]\<rparr>, 0)"
proof -
  let ?ok = "\<lparr>msg_method = Some ''GET'', msg_url = Some ''/health'',
       msg_authorization = Some ''bearer  s3cret'', msg_body = None\<rparr>"
  let ?wrong = "\<lparr>msg_method = Some ''GET'', msg_url = Some ''/health'',
       msg_authorization = Some ''Bearer wrong'', msg_body = None\<rparr>"
  let ?no = "\<lparr>msg_method = Some ''GET'', msg_url = Some ''/health'',
       msg_authorization = None, msg_body = None\<rparr>"
  have t: "''s3cret'' \<noteq> []" by simp
  have u: "msg_url ?ok = Some ''/health''" "msg_url ?wrong = Some ''/health''"
    "msg_url ?no = Some ''/health''" by simp_all
  have pre: "msg_authorization ?ok = Some (''bearer'' @ ''  '' @ ''s3cret'') \<and>
      toUpperCase ''bearer'' = ''BEARER'' \<and> ''  '' \<noteq> [] \<and> list_all is_space ''  '' \<and>
      (''s3cret'' = [] \<or> \<not> is_space (hd ''s3cret''))"
    by (simp add: toUpperCase_def upper_char_def is_space_def)
  have pre': "msg_authorization ?wrong = Some (''Bearer'' @ '' '' @ ''wrong'') \<and>
      toUpperCase ''Bearer'' = ''BEARER'' \<and> '' '' \<noteq> [] \<and> list_all is_space '' '' \<and>
      (''wrong'' = [] \<or> \<not> is_space (hd ''wrong''))"
    by (simp add: toUpperCase_def upper_char_def is_space_def)
  from bearer_authentication [OF t u(1), where llm = sample_engine and uptime = "Finite 5"
      and s = 0 and p = "''bearer''" and ws = "''  ''" and r = "''s3cret''"] pre
  have "requestListener (Some ''s3cret'') sample_engine (Finite 5) ?ok 0
      = route sample_engine (Finite 5) (parsed_request ?ok ''/health'') 0"
    by simp
  moreover have "route sample_engine (Finite 5) (parsed_request ?ok ''/health'') 0
     = (Inr \<lparr>status = 200, body = Obj [(''status'', Str ''ok''), (''uptime'', Num (Finite 5))]\<rparr>, 0)"
    by (simp add: route_health parsed_request_def toUpperCase_def upper_char_def sendJSON_def)
  moreover from bearer_authentication [OF t u(2), where llm = sample_engine
      and uptime = "Finite 5" and s = 0 and p = "''Bearer''" and ws = "'' ''" and r = "''wrong''"] pre'
  have "requestListener (Some ''s3cret'') sample_engine (Finite 5) ?wrong 0
     = (Inr \<lparr>status = 401, body = Obj [(''error'', Str ''Unauthorized'')]\<rparr>, 0)"
    by simp
  moreover from bearer_authentication [OF t u(3), where llm = sample_engine
      and uptime = "Finite 5" and s = 0]
  have "requestListener (Some ''s3cret'') sample_engine (Finite 5) ?no 0
     = (Inr \<lparr>status = 401, body = Obj [(''error'', Str ''Unauthorized'')]\<rparr>, 0)"
    by simp
  ultimately show ?thesis by simp
qed

text \<open>
  C2 as stated fails in two places. A header that holds the token alone, with no
  \<open>Bearer\<close> prefix at all, passes: the prefix is removed when it is there and not
  required. And for a token that starts with a space the header \<open>Bearer\<close>, a space and
  the token is rejected, since the pattern removes the space of the token too.
\<close>

theorem bearer_prefix_counterexample:
  "requestListener (Some ''s3cret'') sample_engine (Finite 5)
      \<lparr>msg_method = Some ''GET'', msg_url = Some ''/health'',
       msg_authorization = Some ''s3cret'', msg_body = None\<rparr> 0
     = (Inr \<lparr>status = 200, body = Obj [(''status'', Str ''ok''), (''uptime'', Num (Finite 5))]\<rparr>, 0)
   \<and> requestListener (Some '' s3cret'') sample_engine (Finite 5)
      \<lparr>msg_method = Some ''GET'', msg_url = Some ''/health'',
       msg_authorization = Some (''Bearer '' @ '' s3cret''), msg_body = None\<rparr> 0
     = (Inr \<lparr>status = 401, body = Obj [(''error'', Str ''Unauthorized'')]\<rparr>, 0)"
  by (simp add: requestListener_def parsed_request_def handler_def authenticated_def
      strip_bearer_def toUpperCase_def upper_char_def is_space_def route_def sendJSON_def)

text \<open>
  C3. For a server with no token configured (none, or the empty string, which is not
  truthy), no request is answered with 401: every request whose URL has been parsed
  goes to the routing, and the response does not depend on the \<open>Authorization\<close>
  header.
\<close>

theorem no_token_no_authentication:
  "token = None \<or> token = Some [] \<Longrightarrow>
   handler token llm uptime req s = route llm uptime req s
   \<and> handler token llm uptime (req\<lparr>authorization := h\<rparr>) s = handler token llm uptime req s
   \<and> (\<exists>r s'. handler token llm uptime req s = (Inr r, s') \<and> status r \<noteq> 401)"
proof (intro conjI)
  assume no: "token = None \<or> token = Some []"
  then show eq: "handler token llm uptime req s = route llm uptime req s"
    by (simp add: handler_authenticated authenticated_no_token)
  have "route llm uptime (req\<lparr>authorization := h\<rparr>) s = route llm uptime req s"
    by (simp add: route_def read_json_body_def Let_def del: map_option_eq_Some)
  with no show "handler token llm uptime (req\<lparr>authorization := h\<rparr>) s = handler token llm uptime req s"
    by (simp add: handler_authenticated authenticated_no_token)
  from route_shaped [of llm uptime req s]
  show "\<exists>r s'. handler token llm uptime req s = (Inr r, s') \<and> status r \<noteq> 401"
    by (auto simp: eq)
qed

theorem no_token_no_authentication_witness:
  "handler (Some []) sample_engine (Finite 5)
      \<lparr>req_method = Some ''GET'', pathname = ''/health'',
       authorization = Some ''Bearer wrong'', payload = None\<rparr> 0
     = (Inr \<lparr>status = 200, body = Obj [(''status'', Str ''ok''), (''uptime'', Num (Finite 5))]\<rparr>, 0)"
proof -
  let ?req = "\<lparr>req_method = Some ''GET'', pathname = ''/health'',
       authorization = Some ''Bearer wrong'', payload = None\<rparr>"
  have "Some [] = None \<or> Some ([] :: string) = Some []" by simp
  from no_token_no_authentication [OF this, of sample_engine "Finite 5" ?req 0]
  have "handler (Some []) sample_engine (Finite 5) ?req 0 = route sample_engine (Finite 5) ?req 0"
    by blast
  then show ?thesis
    by (simp add: route_health toUpperCase_def upper_char_def sendJSON_def)
qed

text \<open>
  C4 (as amended). For every authenticated request whose URL parses: a method other
  than POST is answered with 405 on every path, known or not, except for GET on
  \<open>/health\<close> and \<open>/device\<close>; a POST whose body parses as JSON, to a path that is none of
  the inference paths, is answered with 404 and \<open>{error: "Unknown route: <path>"}\<close>.
\<close>

theorem method_and_route_errors:
  "msg_url msg = Some path \<Longrightarrow> authenticated token (parsed_request msg path) \<Longrightarrow>
   (\<not> (map_option toUpperCase (msg_method msg) = Some ''GET'' \<and>
        (path = ''/health'' \<or> path = ''/device'')) \<and>
     map_option toUpperCase (msg_method msg) \<noteq> Some ''POST'' \<longrightarrow>
      requestListener token llm uptime msg s =
        (Inr \<lparr>status = 405, body = Obj [(''error'', Str ''Method not allowed'')]\<rparr>, s))
   \<and> (map_option toUpperCase (msg_method msg) = Some ''POST'' \<and> msg_body msg = Some (JSON b) \<and>
       path \<notin> set inference_paths \<longrightarrow>
      requestListener token llm uptime msg s =
        (Inr \<lparr>status = 404, body = Obj [(''error'', Str (''Unknown route: '' @ path))]\<rparr>, s))"
proof (intro conjI impI)
  assume u: "msg_url msg = Some path" and a: "authenticated token (parsed_request msg path)"
    and m: "\<not> (map_option toUpperCase (msg_method msg) = Some ''GET'' \<and>
        (path = ''/health'' \<or> path = ''/device'')) \<and>
     map_option toUpperCase (msg_method msg) \<noteq> Some ''POST''"
  from m have "route llm uptime (parsed_request msg path) s = (sendError 405 ''Method not allowed'', s)"
    by (intro route_not_post) simp_all
  with a u show "requestListener token llm uptime msg s =
        (Inr \<lparr>status = 405, body = Obj [(''error'', Str ''Method not allowed'')]\<rparr>, s)"
    by (simp add: authorized)
next
  assume u: "msg_url msg = Some path" and a: "authenticated token (parsed_request msg path)"
    and p: "map_option toUpperCase (msg_method msg) = Some ''POST'' \<and> msg_body msg = Some (JSON b) \<and>
       path \<notin> set inference_paths"
  then have "route llm uptime (parsed_request msg path) s =
     (case dispatch llm (pathname (parsed_request msg path)) b s of
        (Inl err, s') \<Rightarrow>
          (sendError 500 (if message err \<noteq> [] then message err else ''Internal server error''), s')
      | (Inr r, s') \<Rightarrow> (Inr r, s'))"
    by (intro route_post) simp_all
  with p a u show "requestListener token llm uptime msg s =
        (Inr \<lparr>status = 404, body = Obj [(''error'', Str (''Unknown route: '' @ path))]\<rparr>, s)"
    by (simp add: authorized dispatch_unknown)
qed

theorem method_and_route_errors_witness:
  "requestListener None sample_engine (Finite 5)
      \<lparr>msg_method = Some ''GET'', msg_url = Some ''/embed'', msg_authorization = None,
       msg_body = None\<rparr> 0
     = (Inr \<lparr>status = 405, body = Obj [(''error'', Str ''Method not allowed'')]\<rparr>, 0)
   \<and> requestListener None sample_engine (Finite 5)
      \<lparr>msg_method = Some ''POST'', msg_url = Some ''/nonexistent'', msg_authorization = None,
       msg_body = Some (JSON (Obj []))\<rparr> 0
     = (Inr \<lparr>status = 404, body = Obj [(''error'', Str ''Unknown route: /nonexistent'')]\<rparr>, 0)"
proof -
  let ?get = "\<lparr>msg_method = Some ''GET'', msg_url = Some ''/embed'', msg_authorization = None,
       msg_body = None\<rparr>"
  let ?post = "\<lparr>msg_method = Some ''POST'', msg_url = Some ''/nonexistent'', msg_authorization = None,
       msg_body = Some (JSON (Obj []))\<rparr>"
  have u: "msg_url ?get = Some ''/embed''" "msg_url ?post = Some ''/nonexistent''" by simp_all
  have a: "authenticated None (parsed_request ?get ''/embed'')"
    "authenticated None (parsed_request ?post ''/nonexistent'')"
    by (simp_all add: authenticated_def)
  have g: "\<not> (map_option toUpperCase (msg_method ?get) = Some ''GET'' \<and>
        (''/embed'' = ''/health'' \<or> ''/embed'' = ''/device'')) \<and>
     map_option toUpperCase (msg_method ?get) \<noteq> Some ''POST''"
    by (simp add: toUpperCase_def upper_char_def)
  have p: "map_option toUpperCase (msg_method ?post) = Some ''POST'' \<and>
       msg_body ?post = Some (JSON (Obj [])) \<and> ''/nonexistent'' \<notin> set inference_paths"
    by (simp add: toUpperCase_def upper_char_def inference_paths_def)
  from method_and_route_errors [OF u(1) a(1), where llm = sample_engine and uptime = "Finite 5"
      and s = 0] g
    method_and_route_errors [OF u(2) a(2), where llm = sample_engine and uptime = "Finite 5"
      and s = 0 and b = "Obj []"] p
  show ?thesis by simp
qed

text \<open>
  C4 as stated fails for an unknown path with a method other than POST: the method is
  checked before the path is looked at, and the answer is 405, not 404.
\<close>

theorem unknown_path_method_counterexample:
  "requestListener None sample_engine (Finite 5)
      \<lparr>msg_method = Some ''GET'', msg_url = Some ''/nonexistent'', msg_authorization = None,
       msg_body = Some (JSON (Obj []))\<rparr> 0
     = (Inr \<lparr>status = 405, body = Obj [(''error'', Str ''Method not allowed'')]\<rparr>, 0)"
  by (simp add: requestListener_def parsed_request_def handler_def authenticated_def route_def
      toUpperCase_def upper_char_def)

text \<open>
  An authenticated POST request whose URL parses and whose body cannot be read or is
  not JSON is answered with 400 and \<open>{error: "Invalid JSON body"}\<close>, on every path. The
  engine is not invoked: the response is the same for every engine, and the state
  of the engine is left as it was.
\<close>

lemma invalid_json_body:
  "msg_url msg = Some path \<Longrightarrow> authenticated token (parsed_request msg path) \<Longrightarrow>
   map_option toUpperCase (msg_method msg) = Some ''POST'' \<Longrightarrow>
   msg_body msg = None \<or> msg_body msg = Some NotJSON \<Longrightarrow>
   requestListener token llm uptime msg s =
     (Inr \<lparr>status = 400, body = Obj [(''error'', Str ''Invalid JSON body'')]\<rparr>, s)"
  by (simp add: authorized route_bad_body del: map_option_eq_Some)

lemma invalid_json_body_example:
  "requestListener (Some ''s3cret'') sample_engine (Finite 5)
      \<lparr>msg_method = Some ''POST'', msg_url = Some ''/embed'',
       msg_authorization = Some ''Bearer s3cret'', msg_body = Some NotJSON\<rparr> 0
     = (Inr \<lparr>status = 400, body = Obj [(''error'', Str ''Invalid JSON body'')]\<rparr>, 0)"
proof -
  let ?msg = "\<lparr>msg_method = Some ''POST'', msg_url = Some ''/embed'',
       msg_authorization = Some ''Bearer s3cret'', msg_body = Some NotJSON\<rparr>"
  have u: "msg_url ?msg = Some ''/embed''" by simp
  have a: "authenticated (Some ''s3cret'') (parsed_request ?msg ''/embed'')"
    by (simp add: authenticated_def parsed_request_def strip_bearer_def toUpperCase_def
        upper_char_def is_space_def)
  have m: "map_option toUpperCase (msg_method ?msg) = Some ''POST''"
    by (simp add: toUpperCase_def upper_char_def)
  have b: "msg_body ?msg = None \<or> msg_body ?msg = Some NotJSON" by simp
  from invalid_json_body [OF u a m b] show ?thesis .
qed

text \<open>
  C5 (the code falls short of it). An authenticated POST request whose body is not
  JSON is to be answered with 400 and \<open>{error: "Invalid JSON body"}\<close>. The callback does
  not do so for a request whose URL does not parse, such as \<open>POST //\<close> with the right
  token and the body \<open>{bad json\<close>: the URL constructor throws on line 104, before the
  authentication check and the reading of the body and outside both \<open>try\<close> blocks;
  the exception leaves the callback, no response is sent, and the listener serves
  no request after it.
\<close>

theorem unparsed_url_no_response:
  "requestListener (Some ''s3cret'') sample_engine (Finite 5)
      \<lparr>msg_method = Some ''POST'', msg_url = None,
       msg_authorization = Some ''Bearer s3cret'', msg_body = Some NotJSON\<rparr> 0
     = (Inl (Error ''Invalid URL''), 0)
   \<and> listen (Some ''s3cret'') sample_engine
      [(Finite 5, \<lparr>msg_method = Some ''POST'', msg_url = None,
                   msg_authorization = Some ''Bearer s3cret'', msg_body = Some NotJSON\<rparr>),
       (Finite 6, \<lparr>msg_method = Some ''GET'', msg_url = Some ''/health'',
                   msg_authorization = Some ''Bearer s3cret'', msg_body = None\<rparr>)] 0
     = ([], 0)"
  by (simp add: requestListener_def)

lemma handler_operation_throws:
  assumes a: "authenticated token req"
    and m: "map_option toUpperCase (req_method req) = Some ''POST''"
    and p: "payload req = Some (JSON b)"
    and o: "operation_outcome llm (pathname req) b s = Some (Inl err, s')"
  shows "handler token llm uptime req s =
     (Inr \<lparr>status = 500,
           body = Obj [(''error'',
             Str (if message err \<noteq> [] then message err else ''Internal server error''))]\<rparr>, s')"
proof -
  from o have b: "b \<noteq> Null" "b \<noteq> Undefined"
    by (auto simp: operation_outcome_def)
  with o have "dispatch llm (pathname req) b s = (Inl err, s')"
    by (simp add: dispatch_operation)
  with a show ?thesis
    by (simp add: handler_authenticated route_post [OF m p])
qed

text \<open>
  C6 (as amended). For an authenticated POST request to an inference path whose body
  parses as JSON: when the engine operation that the route invokes throws, the
  response has status 500 and the body \<open>{error: m}\<close>, where \<open>m\<close> is the message of the
  exception, or \<open>Internal server error\<close> when that message is empty. The listener goes
  on: the requests that follow are served from the state the failed call left, one
  response for each.
\<close>

theorem engine_failure_is_500:
  "authenticated token req \<Longrightarrow>
   map_option toUpperCase (req_method req) = Some ''POST'' \<Longrightarrow>
   payload req = Some (JSON b) \<Longrightarrow>
   operation_outcome llm (pathname req) b s = Some (Inl err, s') \<Longrightarrow>
   handler token llm uptime req s =
     (Inr \<lparr>status = 500,
           body = Obj [(''error'',
             Str (if message err \<noteq> [] then message err else ''Internal server error''))]\<rparr>, s')
   \<and> serve token llm ((uptime, req) # reqs) s =
     (\<lparr>status = 500,
        body = Obj [(''error'',
          Str (if message err \<noteq> [] then message err else ''Internal server error''))]\<rparr>
        # fst (serve token llm reqs s'),
      snd (serve token llm reqs s'))
   \<and> length (fst (serve token llm reqs s')) = length reqs"
proof (intro conjI)
  assume a: "authenticated token req"
    and m: "map_option toUpperCase (req_method req) = Some ''POST''"
    and p: "payload req = Some (JSON b)"
    and o: "operation_outcome llm (pathname req) b s = Some (Inl err, s')"
  show h: "handler token llm uptime req s =
     (Inr \<lparr>status = 500,
           body = Obj [(''error'',
             Str (if message err \<noteq> [] then message err else ''Internal server error''))]\<rparr>, s')"
    by (rule handler_operation_throws [OF a m p o])
  show "serve token llm ((uptime, req) # reqs) s =
     (\<lparr>status = 500,
        body = Obj [(''error'',
          Str (if message err \<noteq> [] then message err else ''Internal server error''))]\<rparr>
        # fst (serve token llm reqs s'),
      snd (serve token llm reqs s'))"
    by (cases "serve token llm reqs s'") (simp add: h)
  show "length (fst (serve token llm reqs s')) = length reqs"
    by (rule serve_length)
qed

theorem engine_failure_is_500_witness:
  "serve None sample_engine
     [(Finite 5, \<lparr>req_method = Some ''POST'', pathname = ''/generate'', authorization = None,
                  payload = Some (JSON (Obj [(''prompt'', Str ''boom'')]))\<rparr>),
      (Finite 6, \<lparr>req_method = Some ''GET'', pathname = ''/health'', authorization = None,
                  payload = None\<rparr>)] 0
   = ([\<lparr>status = 500, body = Obj [(''error'', Str ''model failure'')]\<rparr>,
       \<lparr>status = 200, body = Obj [(''status'', Str ''ok''), (''uptime'', Num (Finite 6))]\<rparr>], 1)"
proof -
  let ?req = "\<lparr>req_method = Some ''POST'', pathname = ''/generate'', authorization = None,
                  payload = Some (JSON (Obj [(''prompt'', Str ''boom'')]))\<rparr>"
  let ?next = "\<lparr>req_method = Some ''GET'', pathname = ''/health'', authorization = None,
                  payload = None\<rparr>"
  have a: "authenticated None ?req" by (simp add: authenticated_def)
  have m: "map_option toUpperCase (req_method ?req) = Some ''POST''"
    by (simp add: toUpperCase_def upper_char_def)
  have p: "payload ?req = Some (JSON (Obj [(''prompt'', Str ''boom'')]))" by simp
  have o: "operation_outcome sample_engine (pathname ?req) (Obj [(''prompt'', Str ''boom'')]) 0
      = Some (Inl (Error ''model failure''), 1)"
    by (simp add: operation_outcome_def sample_engine_def field_def)
  have rest: "serve None sample_engine [(Finite 6, ?next)] 1
      = ([\<lparr>status = 200, body = Obj [(''status'', Str ''ok''), (''uptime'', Num (Finite 6))]\<rparr>], 1)"
    by (simp add: handler_def authenticated_def route_def toUpperCase_def upper_char_def
        sendJSON_def)
  from engine_failure_is_500 [OF a m p o, of "Finite 5" "[(Finite 6, ?next)]"] rest
  show ?thesis by simp
qed

text \<open>
  C6 as stated fails for an exception whose message is empty: the body of the
  response holds \<open>Internal server error\<close>, not the message of the exception.
\<close>

theorem empty_message_counterexample:
  "generate sample_engine (Str ''silent'') Undefined 0 = (Inl (Error []), 1)
   \<and> handler None sample_engine (Finite 5)
      \<lparr>req_method = Some ''POST'', pathname = ''/generate'', authorization = None,
       payload = Some (JSON (Obj [(''prompt'', Str ''silent'')]))\<rparr> 0
     = (Inr \<lparr>status = 500, body = Obj [(''error'', Str ''Internal server error'')]\<rparr>, 1)"
  by (simp add: sample_engine_def handler_def authenticated_def route_def toUpperCase_def
      upper_char_def read_json_body_def dispatch_def destructure_def send_result_def)

text \<open>
  C7. Every request whose URL has been parsed is answered, and the response has
  exactly one of two shapes: the status 200 with the serialised result that the
  request asks for (the result of the operation, the device information, or the
  health report), or a status outside 200 to 299 with a body \<open>{error: m}\<close> for a string
  \<open>m\<close>.
\<close>

theorem response_envelope:
  "\<exists>r s'. handler token llm uptime req s = (Inr r, s') \<and> well_shaped llm uptime req s r"
proof (cases "authenticated token req")
  case True
  with route_shaped [of llm uptime req s] show ?thesis
    by (auto simp: handler_authenticated)
next
  case False
  then show ?thesis
    by (simp add: handler_unauthenticated error_shaped success_status_def)
qed

theorem response_envelope_witness:
  "well_shaped sample_engine (Finite 5)
      \<lparr>req_method = Some ''POST'', pathname = ''/tokenize'', authorization = None,
       payload = Some (JSON (Obj [(''text'', Str ''hello world'')]))\<rparr> 0
      \<lparr>status = 200, body = Obj [(''tokens'', Arr [Num (Finite 17), Num (Finite 4)])]\<rparr>
   \<and> well_shaped sample_engine (Finite 5)
      \<lparr>req_method = Some ''POST'', pathname = ''/tokenize'', authorization = None,
       payload = Some NotJSON\<rparr> 0
      \<lparr>status = 400, body = Obj [(''error'', Str ''Invalid JSON body'')]\<rparr>"
proof -
  let ?ok = "\<lparr>req_method = Some ''POST'', pathname = ''/tokenize'', authorization = None,
       payload = Some (JSON (Obj [(''text'', Str ''hello world'')]))\<rparr>"
  let ?bad = "\<lparr>req_method = Some ''POST'', pathname = ''/tokenize'', authorization = None,
       payload = Some NotJSON\<rparr>"
  have 1: "handler None sample_engine (Finite 5) ?ok 0
      = (Inr \<lparr>status = 200, body = Obj [(''tokens'', Arr [Num (Finite 17), Num (Finite 4)])]\<rparr>, 1)"
    by (simp add: sample_engine_def handler_def authenticated_def route_def toUpperCase_def
        upper_char_def read_json_body_def dispatch_def destructure_def send_result_def
        sendJSON_def)
  have 2: "handler None sample_engine (Finite 5) ?bad 0
      = (Inr \<lparr>status = 400, body = Obj [(''error'', Str ''Invalid JSON body'')]\<rparr>, 0)"
    by (simp add: handler_def authenticated_def route_def toUpperCase_def upper_char_def
        read_json_body_def)
  from response_envelope [of None sample_engine "Finite 5" ?ok 0]
    response_envelope [of None sample_engine "Finite 5" ?bad 0]
  show ?thesis unfolding 1 2 by simp
qed

text \<open>
  The callback as a whole: every response that it sends is well shaped; with no
  token configured none has status 401; and over messages whose URLs parse, the
  listener is the listener over the parsed requests.
\<close>

lemma requestListener_shaped:
  assumes "requestListener token llm uptime msg s = (Inr r, s')"
  shows "\<exists>path. msg_url msg = Some path \<and> well_shaped llm uptime (parsed_request msg path) s r"
proof (cases "msg_url msg")
  case None
  with assms show ?thesis by (simp add: requestListener_unparsed)
next
  case (Some path)
  show ?thesis
  proof (cases "authenticated token (parsed_request msg path)")
    case True
    with assms Some route_shaped [of llm uptime "parsed_request msg path" s] show ?thesis
      by (auto simp: authorized)
  next
    case False
    with assms Some show ?thesis
      by (auto simp: unauthorized error_shaped success_status_def)
  qed
qed

lemma requestListener_no_token:
  assumes "token = None \<or> token = Some []"
    and "requestListener token llm uptime msg s = (Inr r, s')"
  shows "status r \<noteq> 401"
proof (cases "msg_url msg")
  case None
  with assms show ?thesis by (simp add: requestListener_unparsed)
next
  case (Some path)
  from assms(1) have "authenticated token (parsed_request msg path)"
    by (rule authenticated_no_token)
  with assms(2) Some route_shaped [of llm uptime "parsed_request msg path" s] show ?thesis
    by (auto simp: authorized)
qed

lemma requestListener_message_of:
  "requestListener token llm uptime (message_of req) s = handler token llm uptime req s"
  by (cases req) (simp add: requestListener_def message_of_def parsed_request_def)

lemma listen_parsed:
  "listen token llm (map (apsnd message_of) reqs) s = serve token llm reqs s"
proof (induction reqs arbitrary: s)
  case Nil
  show ?case by simp
next
  case (Cons a reqs)
  obtain uptime req where a: "a = (uptime, req)" by (cases a)
  obtain out s' where h: "handler token llm uptime req s = (out, s')"
    by (cases "handler token llm uptime req s")
  show ?case
    by (cases out) (simp_all add: a requestListener_message_of h Cons)
qed

section \<open>The remote proxy client: properties\<close>

lemma receive_not_ok:
  "\<not> ok resp \<Longrightarrow>
   receive path (Responded resp, w') =
     (Inl (Error (''QMD remote '' @ path @ '' failed ('' @ digits (resp_status resp) @ ''): ''
                  @ (case resp_text resp of None \<Rightarrow> [] | Some t \<Rightarrow> t))), w')"
  by (simp add: receive_def)

lemma receive_ok: "ok resp \<Longrightarrow> receive path (Responded resp, w') = (resp_json resp, w')"
  by (simp add: receive_def)

lemma unwrap_Inl: "unwrap (Inl e, w') k = (Inl e, w')"
  by (simp add: unwrap_def)

lemma remote_call_not_ok:
  assumes f: "\<And>hreq. fetch hreq w = (Responded resp, w')" and n: "\<not> ok resp"
  shows "remote_call this fetch c w =
     (Inl (Error (''QMD remote '' @ call_path c @ '' failed ('' @ digits (resp_status resp) @ ''): ''
                  @ (case resp_text resp of None \<Rightarrow> [] | Some t \<Rightarrow> t))), w')"
  by (cases c) (simp_all add: post_def get_def f receive_not_ok [OF n] unwrap_Inl)

text \<open>
  C8. When the response to the request of \<open>post\<close> or of \<open>get\<close> has a status outside 200
  to 299, the call fails with the error \<open>QMD remote <path> failed (<status>): <text>\<close>,
  where the text is that of the body, or empty when the body cannot be read; it does
  not return a result. So does every operation of the proxy, with its own path.
\<close>

theorem non_success_status_fails:
  "\<not> ok resp \<Longrightarrow>
   (fetch (post_request this path b) w = (Responded resp, w') \<longrightarrow>
      post this fetch path b w =
        (Inl (Error (''QMD remote '' @ path @ '' failed ('' @ digits (resp_status resp) @ ''): ''
                     @ (case resp_text resp of None \<Rightarrow> [] | Some t \<Rightarrow> t))), w'))
   \<and> (fetch (get_request this path) w = (Responded resp, w') \<longrightarrow>
      get this fetch path w =
        (Inl (Error (''QMD remote '' @ path @ '' failed ('' @ digits (resp_status resp) @ ''): ''
                     @ (case resp_text resp of None \<Rightarrow> [] | Some t \<Rightarrow> t))), w'))
   \<and> ((\<forall>hreq. fetch hreq w = (Responded resp, w')) \<longrightarrow>
      remote_call this fetch c w =
        (Inl (Error (''QMD remote '' @ call_path c @ '' failed ('' @ digits (resp_status resp) @ ''): ''
                     @ (case resp_text resp of None \<Rightarrow> [] | Some t \<Rightarrow> t))), w'))"
  by (simp add: post_def get_def receive_not_ok remote_call_not_ok)

theorem non_success_status_fails_witness:
  "post \<lparr>baseUrl = ''http://gpu:8282'', authToken = None, timeoutMs = 120000\<rparr>
       (\<lambda>hreq w. (Responded \<lparr>resp_status = 401, resp_text = None, resp_json = Inr Null\<rparr>, Suc w))
       ''/embed'' (Obj [(''text'', Str ''hello'')]) (0 :: nat)
     = (Inl (Error ''QMD remote /embed failed (401): ''), 1)
   \<and> get \<lparr>baseUrl = ''http://gpu:8282'', authToken = None, timeoutMs = 120000\<rparr>
       (\<lambda>hreq w. (Responded \<lparr>resp_status = 500, resp_text = Some ''{}'', resp_json = Inr (Obj [])\<rparr>, Suc w))
       ''/device'' (0 :: nat)
     = (Inl (Error ''QMD remote /device failed (500): {}''), 1)"
proof -
  let ?cl = "\<lparr>baseUrl = ''http://gpu:8282'', authToken = None, timeoutMs = 120000\<rparr>"
  let ?r1 = "\<lparr>resp_status = 401, resp_text = None, resp_json = Inr Null\<rparr>"
  let ?r2 = "\<lparr>resp_status = 500, resp_text = Some ''{}'', resp_json = Inr (Obj [])\<rparr>"
  have n: "\<not> ok ?r1" "\<not> ok ?r2" by (simp_all add: ok_def)
  have d: "digits 401 = ''401''" "digits 500 = ''500''" by (simp_all add: digits.simps)
  from non_success_status_fails [OF n(1), of "\<lambda>hreq w. (Responded ?r1, Suc w)" ?cl "''/embed''"
      "Obj [(''text'', Str ''hello'')]" "0 :: nat" 1]
    non_success_status_fails [OF n(2), of "\<lambda>hreq w. (Responded ?r2, Suc w)" ?cl "''/device''"
      _ "0 :: nat" 1]
  show ?thesis by (simp add: d)
qed

section \<open>The proxy pointed at a server: properties\<close>









text \<open>The body that the proxy sends holds the arguments of the call.\<close>

lemma stringify_member:
  "json_or_undefined v \<Longrightarrow>
   stringify_members ((k, v) # kvs) =
     (if v = Undefined then stringify_members kvs else (k, v) # stringify_members kvs)"
  by (auto simp: json_or_undefined_def is_json_def)

lemma field_present: "field (Obj ((k, v) # kvs)) k = v"
  by (simp add: field_def)

lemma field_absent: "field (Obj []) k = Undefined"
  by (simp add: field_def)

lemma field_other: "k' \<noteq> k \<Longrightarrow> field (Obj ((k', v) # kvs)) k = field (Obj kvs) k"
  by (simp add: field_def)

lemma json_wrapped:
  "json_or_undefined v \<Longrightarrow>
   \<exists>d. JSON_stringify (Obj [(k, v)]) = Some d \<and> field d k = v"
  by (auto simp: json_or_undefined_def is_json_def field_def)











end
